theory Spec2Isabelle
  imports Main "HOL-Library.Word"
begin

section \<open>The UltraStable supply-adjustment integration (core/ultrastable\_integration.go)\<close>

text \<open>
  The embedding follows the Go source function by function. The collaborators that the
  source only imports are parameters of the model:
  \<^item> \<open>common.HexToHash\<close>, which turns a key name into a storage slot, is the parameter
    \<open>HexToHash\<close> of every function that touches storage; the slot type is a type
    variable. The function of go-ethereum itself is \<open>common_HexToHash\<close> below, and the
    properties that depend on where the keys land are stated for it;
  \<^item> the proprietary manager (\<open>CalculateSupplyAdjustment\<close>, \<open>IsAdjustmentPossible\<close>, ...)
    is a record of functions and values;
  \<^item> each call of \<open>time.Now()\<close> is a parameter of its own.
  A \<open>*big.Int\<close> is an \<open>int\<close>, a \<open>uint256.Int\<close> and a 32-byte \<open>common.Hash\<close> value are
  \<open>256 word\<close>, a \<open>time.Time\<close> is an instant, counted in nanoseconds from the Unix
  epoch as an \<open>int\<close>.
\<close>

subsection \<open>Numbers, hashes and balances\<close>

type_synonym Address = "160 word"
type_synonym uint256 = "256 word"
type_synonym Time = int

text \<open>\<open>t.Unix()\<close>, the whole seconds of an instant, and \<open>time.Unix(sec, 0)\<close>.\<close>

definition Unix :: "Time \<Rightarrow> int" where
  "Unix t = t div 1000000000"

definition time_Unix :: "int \<Rightarrow> Time" where
  "time_Unix sec = sec * 1000000000"

text \<open>
  \<open>common.BytesToHash(x.Bytes())\<close>: \<open>Bytes\<close> is the big-endian magnitude of \<open>x\<close> (the sign
  is dropped), and \<open>BytesToHash\<close> right-aligns it in 32 bytes, keeping the low 32 bytes of
  a longer slice.
\<close>

definition BytesToHash_Bytes :: "int \<Rightarrow> uint256" where
  "BytesToHash_Bytes x = word_of_int \<bar>x\<bar>"

text \<open>\<open>new(big.Int).SetBytes(h[:])\<close>: the 32 bytes read as an unsigned big-endian number.\<close>

definition SetBytes :: "uint256 \<Rightarrow> int" where
  "SetBytes h = uint h"

text \<open>
  \<open>x.Int64()\<close> of a non-negative \<open>big.Int\<close>: the low 64 bits, read as two's complement.
\<close>

definition Int64 :: "int \<Rightarrow> int" where
  "Int64 x = (x + 2 ^ 63) mod 2 ^ 64 - 2 ^ 63"

text \<open>
  \<open>uint256.FromBig(b)\<close>: the low 256 bits of \<open>b\<close> in two's complement, and the overflow
  flag, set when the magnitude of \<open>b\<close> needs more than 256 bits.
\<close>

definition FromBig :: "int \<Rightarrow> uint256 \<times> bool" where
  "FromBig b = (word_of_int b, 2 ^ 256 \<le> \<bar>b\<bar>)"

definition ToBig :: "uint256 \<Rightarrow> int" where
  "ToBig v = uint v"

subsection \<open>The ledger: \<open>state.StateDB\<close> behind \<open>BlockChain.State()\<close>\<close>

record 'h StateDB =
  balances :: "Address \<Rightarrow> uint256"
  storage :: "Address \<Rightarrow> 'h \<Rightarrow> uint256"

definition GetState :: "'h StateDB \<Rightarrow> Address \<Rightarrow> 'h \<Rightarrow> uint256" where
  "GetState s a k = storage s a k"

definition SetState :: "'h StateDB \<Rightarrow> Address \<Rightarrow> 'h \<Rightarrow> uint256 \<Rightarrow> 'h StateDB" where
  "SetState s a k v = s\<lparr>storage := (storage s)(a := (storage s a)(k := v))\<rparr>"

definition GetBalance :: "'h StateDB \<Rightarrow> Address \<Rightarrow> uint256" where
  "GetBalance s a = balances s a"

text \<open>Balances are \<open>uint256.Int\<close>: addition and subtraction wrap around at \<open>2 ^ 256\<close>.\<close>

definition AddBalance :: "'h StateDB \<Rightarrow> Address \<Rightarrow> uint256 \<Rightarrow> 'h StateDB" where
  "AddBalance s a amount = s\<lparr>balances := (balances s)(a := balances s a + amount)\<rparr>"

definition SubBalance :: "'h StateDB \<Rightarrow> Address \<Rightarrow> uint256 \<Rightarrow> 'h StateDB" where
  "SubBalance s a amount = s\<lparr>balances := (balances s)(a := balances s a - amount)\<rparr>"

datatype error = StateError | errors_New string

text \<open>
  Modelled from the spec: \<open>BlockChain.State()\<close> is not among the sources. The spec's ledger
  is one consistent state snapshot that a cycle reads and writes; so \<open>State\<close> either
  fails or hands out the one state of the chain, and what is written through the handle
  is what a later \<open>State()\<close> returns.
\<close>

record 'h BlockChain =
  currentState :: "'h StateDB"
  stateErr :: "error option"

definition State :: "'h BlockChain \<Rightarrow> error + 'h StateDB" where
  "State bc = (case stateErr bc of Some err \<Rightarrow> Inl err | None \<Rightarrow> Inr (currentState bc))"

subsection \<open>params/addresses.go\<close>

definition O2ULTokenSystemAddress :: Address where
  "O2ULTokenSystemAddress = 0x1001"

definition UltraStableTokenSystemAddress :: Address where
  "UltraStableTokenSystemAddress = 0x1002"

subsection \<open>The proprietary module's interface\<close>

datatype AdjustmentType = None_adj | Expansion | Contraction

record AdjustmentResult =
  Type :: AdjustmentType
  Amount :: int
  ValueTokens :: int
  DeviationBps :: int
  NewSupply :: int
  Timestamp :: Time

record proprietary_Manager =
  GetLastUpdateTime :: Time
  CalculateSupplyAdjustment :: "int \<Rightarrow> int \<Rightarrow> 8 word \<Rightarrow> AdjustmentResult"
  IsAdjustmentPossible :: "AdjustmentResult \<Rightarrow> int \<Rightarrow> int \<Rightarrow> bool \<times> string"
  GetTargetStableValue :: int
  GetCurrentStableValue :: int

subsection \<open>\<open>UltraStableManager\<close>\<close>

text \<open>The two feeds are the lists of what was sent on them, oldest first.\<close>

record 'h UltraStableManager =
  blockchain :: "'h BlockChain"
  proprietary :: proprietary_Manager
  lastUpdateTime :: Time
  updateFeed :: "AdjustmentResult list"
  adjustFeed :: "AdjustmentResult list"

text \<open>Writing through the \<open>*StateDB\<close> handle that \<open>State()\<close> returned.\<close>

definition withState :: "'h UltraStableManager \<Rightarrow> 'h StateDB \<Rightarrow> 'h UltraStableManager" where
  "withState m s = m\<lparr>blockchain := (blockchain m)\<lparr>currentState := s\<rparr>\<rparr>"

subsection \<open>Decimal printing: \<open>big.Int.String()\<close>\<close>

definition digit_char :: "nat \<Rightarrow> char" where
  "digit_char d = ''0123456789'' ! d"

fun digits :: "nat \<Rightarrow> string" where
  "digits n = (if n < 10 then [digit_char n] else digits (n div 10) @ [digit_char (n mod 10)])"

declare digits.simps [simp del]

definition String :: "int \<Rightarrow> string" where
  "String x = (if x < 0 then CHR ''-'' # digits (nat (- x)) else digits (nat x))"

text \<open>The number that a string of decimal digits stands for.\<close>

definition digit_val :: "char \<Rightarrow> nat" where
  "digit_val c = of_char c - 48"

definition digits_val :: "string \<Rightarrow> nat" where
  "digits_val s = foldl (\<lambda>v c. 10 * v + digit_val c) 0 s"

subsection \<open>\<open>updateAdjustmentHistory\<close>\<close>

definition updateAdjustmentHistory ::
  "(string \<Rightarrow> 'h) \<Rightarrow> 'h UltraStableManager \<Rightarrow> AdjustmentResult \<Rightarrow> 'h UltraStableManager" where
  "updateAdjustmentHistory HexToHash m adjustment =
    (case State (blockchain m) of
       Inl err \<Rightarrow> m
     | Inr statedb \<Rightarrow>
        let countBytes = GetState statedb UltraStableTokenSystemAddress
                           (HexToHash ''adjustment_history_count'');
            count = SetBytes countBytes;
            newCount = count + 1;
            statedb = SetState statedb UltraStableTokenSystemAddress
                        (HexToHash ''adjustment_history_count'') (BytesToHash_Bytes newCount);
            prefix = ''adjustment_'' @ String count @ ''_'';
            typeValue = (case Type adjustment of
                           Expansion \<Rightarrow> 1
                         | Contraction \<Rightarrow> 2
                         | _ \<Rightarrow> 0);
            statedb = SetState statedb UltraStableTokenSystemAddress
                        (HexToHash (prefix @ ''type'')) (BytesToHash_Bytes typeValue);
            statedb = SetState statedb UltraStableTokenSystemAddress
                        (HexToHash (prefix @ ''amount'')) (BytesToHash_Bytes (Amount adjustment));
            statedb = SetState statedb UltraStableTokenSystemAddress
                        (HexToHash (prefix @ ''value_tokens''))
                        (BytesToHash_Bytes (ValueTokens adjustment));
            statedb = SetState statedb UltraStableTokenSystemAddress
                        (HexToHash (prefix @ ''deviation''))
                        (BytesToHash_Bytes (DeviationBps adjustment));
            statedb = SetState statedb UltraStableTokenSystemAddress
                        (HexToHash (prefix @ ''new_supply''))
                        (BytesToHash_Bytes (NewSupply adjustment));
            statedb = SetState statedb UltraStableTokenSystemAddress
                        (HexToHash (prefix @ ''timestamp''))
                        (BytesToHash_Bytes (Unix (Timestamp adjustment)))
        in withState m statedb)"

subsection \<open>\<open>ApplySupplyAdjustment\<close>\<close>

text \<open>
  The result is the returned \<open>error\<close> (\<open>None\<close> for \<open>nil\<close>) and the manager afterwards.
  The reason string of \<open>IsAdjustmentPossible\<close> is only logged.
\<close>

definition ApplySupplyAdjustment ::
  "(string \<Rightarrow> 'h) \<Rightarrow> 'h UltraStableManager \<Rightarrow> AdjustmentResult \<Rightarrow> Address
     \<Rightarrow> error option \<times> 'h UltraStableManager" where
  "ApplySupplyAdjustment HexToHash m adjustment treasuryAddr =
    (if Type adjustment = None_adj then (None, m)
     else case State (blockchain m) of
       Inl err \<Rightarrow> (Some err, m)
     | Inr statedb \<Rightarrow>
        let minSupplyBytes = GetState statedb UltraStableTokenSystemAddress
                               (HexToHash ''ultrastable_minimum_supply'');
            minSupply = SetBytes minSupplyBytes;
            treasuryBalance = GetBalance statedb treasuryAddr;
            (possible, reason) = IsAdjustmentPossible (proprietary m) adjustment
                                   (ToBig treasuryBalance) minSupply
        in if \<not> possible then (None, m)
           else if Type adjustment = Expansion then
             (let (valueAmount, overflow) = FromBig (ValueTokens adjustment)
              in if overflow then (Some (errors_New ''value token amount overflow''), m)
                 else
                   let statedb = SubBalance statedb treasuryAddr valueAmount;
                       supplyBytes = GetState statedb UltraStableTokenSystemAddress
                                       (HexToHash ''ultrastable_current_supply'');
                       currentSupply = SetBytes supplyBytes;
                       newSupply = currentSupply + Amount adjustment;
                       statedb = SetState statedb UltraStableTokenSystemAddress
                                   (HexToHash ''ultrastable_current_supply'')
                                   (BytesToHash_Bytes newSupply);
                       m = updateAdjustmentHistory HexToHash (withState m statedb) adjustment
                   in (None, m\<lparr>adjustFeed := adjustFeed m @ [adjustment]\<rparr>))
           else if Type adjustment = Contraction then
             (let (valueAmount, overflow) = FromBig (ValueTokens adjustment)
              in if overflow then (Some (errors_New ''value token amount overflow''), m)
                 else
                   let statedb = AddBalance statedb treasuryAddr valueAmount;
                       supplyBytes = GetState statedb UltraStableTokenSystemAddress
                                       (HexToHash ''ultrastable_current_supply'');
                       currentSupply = SetBytes supplyBytes;
                       newSupply = currentSupply - Amount adjustment;
                       statedb = SetState statedb UltraStableTokenSystemAddress
                                   (HexToHash ''ultrastable_current_supply'')
                                   (BytesToHash_Bytes newSupply);
                       m = updateAdjustmentHistory HexToHash (withState m statedb) adjustment
                   in (None, m\<lparr>adjustFeed := adjustFeed m @ [adjustment]\<rparr>))
           else
             (let m = updateAdjustmentHistory HexToHash m adjustment
              in (None, m\<lparr>adjustFeed := adjustFeed m @ [adjustment]\<rparr>)))"

subsection \<open>\<open>checkForUpdates\<close> and \<open>ProcessUpdate\<close>\<close>

text \<open>\<open>uint8(x.Uint64())\<close>: the low 64 bits of \<open>x\<close>, then the low 8 of those.\<close>

definition Uint64 :: "int \<Rightarrow> 64 word" where
  "Uint64 x = word_of_int x"

definition uint8 :: "64 word \<Rightarrow> 8 word" where
  "uint8 x = ucast x"

definition ProcessUpdate ::
  "(string \<Rightarrow> 'h) \<Rightarrow> Time \<Rightarrow> Time \<Rightarrow> 'h UltraStableManager \<Rightarrow> 'h UltraStableManager" where
  "ProcessUpdate HexToHash now now' m =
    (case State (blockchain m) of
       Inl err \<Rightarrow> m
     | Inr statedb \<Rightarrow>
        let supplyBytes = GetState statedb UltraStableTokenSystemAddress
                            (HexToHash ''ultrastable_current_supply'');
            currentSupply = SetBytes supplyBytes;
            priceBytes = GetState statedb O2ULTokenSystemAddress
                           (HexToHash ''value_token_price'');
            valueTokenPrice = SetBytes priceBytes;
            valueTokenPrice = (if valueTokenPrice = 0 then 1000000000000000000
                               else valueTokenPrice);
            volatilityBytes = GetState statedb UltraStableTokenSystemAddress
                                (HexToHash ''market_volatility'');
            volatility = uint8 (Uint64 (SetBytes volatilityBytes));
            adjustment = CalculateSupplyAdjustment (proprietary m)
                           currentSupply valueTokenPrice volatility;
            m = m\<lparr>updateFeed := updateFeed m @ [adjustment]\<rparr>;
            targetValue = GetTargetStableValue (proprietary m);
            statedb = SetState statedb UltraStableTokenSystemAddress
                        (HexToHash ''ultrastable_target_value'') (BytesToHash_Bytes targetValue);
            currentValue = GetCurrentStableValue (proprietary m);
            statedb = SetState statedb UltraStableTokenSystemAddress
                        (HexToHash ''ultrastable_current_value'') (BytesToHash_Bytes currentValue);
            updateTime = Unix now;
            statedb = SetState statedb UltraStableTokenSystemAddress
                        (HexToHash ''ultrastable_last_update_time'') (BytesToHash_Bytes updateTime)
        in (withState m statedb)\<lparr>lastUpdateTime := now'\<rparr>)"



subsection \<open>\<open>GetAdjustmentHistory\<close>\<close>

text \<open>The body of the loop: the entry read back from the slots of index \<open>i\<close>.\<close>

definition fetchEntry :: "(string \<Rightarrow> 'h) \<Rightarrow> 'h StateDB \<Rightarrow> int \<Rightarrow> AdjustmentResult" where
  "fetchEntry HexToHash statedb i =
    (let prefix = ''adjustment_'' @ String i @ ''_'';
         typeBytes = GetState statedb UltraStableTokenSystemAddress
                       (HexToHash (prefix @ ''type''));
         typeValue = Int64 (SetBytes typeBytes);
         adjustType = (if typeValue = 1 then Expansion
                       else if typeValue = 2 then Contraction
                       else None_adj);
         amountBytes = GetState statedb UltraStableTokenSystemAddress
                         (HexToHash (prefix @ ''amount''));
         amount = SetBytes amountBytes;
         valueTokensBytes = GetState statedb UltraStableTokenSystemAddress
                              (HexToHash (prefix @ ''value_tokens''));
         valueTokens = SetBytes valueTokensBytes;
         deviationBytes = GetState statedb UltraStableTokenSystemAddress
                            (HexToHash (prefix @ ''deviation''));
         deviation = SetBytes deviationBytes;
         supplyBytes = GetState statedb UltraStableTokenSystemAddress
                         (HexToHash (prefix @ ''new_supply''));
         newSupply = SetBytes supplyBytes;
         timestampBytes = GetState statedb UltraStableTokenSystemAddress
                            (HexToHash (prefix @ ''timestamp''));
         timestamp = Int64 (SetBytes timestampBytes)
     in \<lparr>Type = adjustType, Amount = amount, ValueTokens = valueTokens,
         DeviationBps = deviation, NewSupply = newSupply, Timestamp = time_Unix timestamp\<rparr>)"

text \<open>
  \<open>for i := start; i < count; i++\<close>, appending one entry per round. Inside the loop
  \<open>i < count\<close>, so the \<open>int64\<close> increment cannot overflow.
\<close>

function fetchEntries ::
  "(string \<Rightarrow> 'h) \<Rightarrow> 'h StateDB \<Rightarrow> int \<Rightarrow> int \<Rightarrow> AdjustmentResult list
     \<Rightarrow> AdjustmentResult list" where
  "fetchEntries HexToHash statedb i count results =
    (if i < count
     then fetchEntries HexToHash statedb (i + 1) count
            (results @ [fetchEntry HexToHash statedb i])
     else results)"
  by pat_completeness auto
termination
  by (relation "measure (\<lambda>(HexToHash, statedb, i, count, results). nat (count - i))") auto

declare fetchEntries.simps [simp del]

text \<open>
  \<open>maxEntries\<close> is a Go \<open>int\<close> (64 bits); \<open>count - int64(maxEntries)\<close> is an \<open>int64\<close>
  subtraction and wraps around. A failed \<open>State()\<close> returns \<open>nil\<close>, the empty slice.
\<close>

definition GetAdjustmentHistory ::
  "(string \<Rightarrow> 'h) \<Rightarrow> 'h UltraStableManager \<Rightarrow> int \<Rightarrow> AdjustmentResult list" where
  "GetAdjustmentHistory HexToHash m maxEntries =
    (case State (blockchain m) of
       Inl err \<Rightarrow> []
     | Inr statedb \<Rightarrow>
        let countBytes = GetState statedb UltraStableTokenSystemAddress
                           (HexToHash ''adjustment_history_count'');
            count = Int64 (SetBytes countBytes);
            results = [];
            start = Int64 (count - Int64 maxEntries);
            start = (if start < 0 then 0 else start)
        in fetchEntries HexToHash statedb start count results)"

section \<open>Genesis (core/genesis\_ultrastable.go)\<close>

text \<open>
  The configuration comes from the proprietary module. The three Go maps are association
  lists, visited in list order (Go fixes no order for a map).
\<close>

record ultrastable_Config =
  InitialSupply :: int
  UpdateFrequency :: int
  ContinentalWeights :: "(string \<times> int) list"
  TimeframeWeights :: "(string \<times> int) list"
  SmoothingWindows :: "(string \<times> int) list"

text \<open>\<open>common.BytesToHash(b)\<close> of a byte slice: big-endian, the low 32 bytes kept.\<close>

definition BytesToHash :: "8 word list \<Rightarrow> uint256" where
  "BytesToHash b = foldl (\<lambda>h x. h * 256 + ucast x) 0 b"

definition bytes_of_string :: "string \<Rightarrow> 8 word list" where
  "bytes_of_string s = map of_char s"

definition address_Bytes :: "Address \<Rightarrow> uint256" where
  "address_Bytes a = ucast a"

text \<open>One \<open>for key, value := range\<close> loop of the genesis set-up.\<close>

fun storeWeights ::
  "(string \<Rightarrow> 'h) \<Rightarrow> string \<Rightarrow> (string \<times> int) list \<Rightarrow> 'h StateDB \<Rightarrow> 'h StateDB" where
  "storeWeights HexToHash keyPrefix [] statedb = statedb"
| "storeWeights HexToHash keyPrefix ((name, weight) # rest) statedb =
     storeWeights HexToHash keyPrefix rest
       (SetState statedb UltraStableTokenSystemAddress (HexToHash (keyPrefix @ name))
          (BytesToHash_Bytes (Int64 weight)))"

definition SetupUltraStableToken ::
  "(string \<Rightarrow> 'h) \<Rightarrow> ultrastable_Config \<Rightarrow> Time \<Rightarrow> 'h StateDB \<Rightarrow> Address \<Rightarrow> 'h StateDB" where
  "SetupUltraStableToken HexToHash config now statedb treasuryAddr =
    (let (initialSupply, overflow) = FromBig (InitialSupply config)
     in if overflow then statedb
        else
          let statedb = AddBalance statedb treasuryAddr initialSupply;
              statedb = SetState statedb UltraStableTokenSystemAddress
                          (HexToHash ''ultrastable_token_name'')
                          (BytesToHash (bytes_of_string ''UltraStable''));
              statedb = SetState statedb UltraStableTokenSystemAddress
                          (HexToHash ''ultrastable_token_symbol'')
                          (BytesToHash (bytes_of_string ''USUL''));
              statedb = SetState statedb UltraStableTokenSystemAddress
                          (HexToHash ''ultrastable_token_decimals'') (BytesToHash_Bytes 18);
              statedb = SetState statedb UltraStableTokenSystemAddress
                          (HexToHash ''ultrastable_initial_supply'')
                          (BytesToHash_Bytes (InitialSupply config));
              statedb = SetState statedb UltraStableTokenSystemAddress
                          (HexToHash ''ultrastable_current_supply'')
                          (BytesToHash_Bytes (InitialSupply config));
              statedb = SetState statedb UltraStableTokenSystemAddress
                          (HexToHash ''ultrastable_minimum_supply'')
                          (BytesToHash_Bytes 1000000000000000000);
              statedb = SetState statedb UltraStableTokenSystemAddress
                          (HexToHash ''ultrastable_update_frequency'')
                          (BytesToHash_Bytes (Int64 (UpdateFrequency config)));
              statedb = SetState statedb UltraStableTokenSystemAddress
                          (HexToHash ''ultrastable_initial_value'')
                          (BytesToHash_Bytes 1000000000000000000);
              statedb = SetState statedb UltraStableTokenSystemAddress
                          (HexToHash ''ultrastable_current_value'')
                          (BytesToHash_Bytes 1000000000000000000);
              statedb = SetState statedb UltraStableTokenSystemAddress
                          (HexToHash ''ultrastable_target_value'')
                          (BytesToHash_Bytes 1000000000000000000);
              statedb = SetState statedb UltraStableTokenSystemAddress
                          (HexToHash ''ultrastable_last_update_time'')
                          (BytesToHash_Bytes (Unix now));
              statedb = SetState statedb UltraStableTokenSystemAddress
                          (HexToHash ''market_volatility'') (BytesToHash_Bytes 25);
              statedb = SetState statedb UltraStableTokenSystemAddress
                          (HexToHash ''adjustment_history_count'') (BytesToHash_Bytes 0);
              statedb = storeWeights HexToHash ''continental_weight_''
                          (ContinentalWeights config) statedb;
              statedb = storeWeights HexToHash ''timeframe_weight_''
                          (TimeframeWeights config) statedb;
              statedb = storeWeights HexToHash ''smoothing_window_''
                          (SmoothingWindows config) statedb;
              statedb = SetState statedb UltraStableTokenSystemAddress
                          (HexToHash ''treasury_address'') (address_Bytes treasuryAddr)
          in statedb)"

section \<open>Observations of the ledger\<close>

definition ledger :: "'h UltraStableManager \<Rightarrow> 'h StateDB" where
  "ledger m = currentState (blockchain m)"

definition currentSupply :: "(string \<Rightarrow> 'h) \<Rightarrow> 'h StateDB \<Rightarrow> int" where
  "currentSupply HexToHash s =
     SetBytes (GetState s UltraStableTokenSystemAddress (HexToHash ''ultrastable_current_supply''))"

definition minimumSupply :: "(string \<Rightarrow> 'h) \<Rightarrow> 'h StateDB \<Rightarrow> int" where
  "minimumSupply HexToHash s =
     SetBytes (GetState s UltraStableTokenSystemAddress (HexToHash ''ultrastable_minimum_supply''))"

definition historyCount :: "(string \<Rightarrow> 'h) \<Rightarrow> 'h StateDB \<Rightarrow> int" where
  "historyCount HexToHash s =
     SetBytes (GetState s UltraStableTokenSystemAddress (HexToHash ''adjustment_history_count''))"

definition treasuryBalance :: "'h StateDB \<Rightarrow> Address \<Rightarrow> int" where
  "treasuryBalance s treasuryAddr = ToBig (GetBalance s treasuryAddr)"

text \<open>The answer of the feasibility check that \<open>ApplySupplyAdjustment\<close> asks for.\<close>

definition feasible ::
  "(string \<Rightarrow> 'h) \<Rightarrow> 'h UltraStableManager \<Rightarrow> AdjustmentResult \<Rightarrow> Address \<Rightarrow> bool" where
  "feasible HexToHash m adjustment treasuryAddr =
     fst (IsAdjustmentPossible (proprietary m) adjustment
            (treasuryBalance (ledger m) treasuryAddr) (minimumSupply HexToHash (ledger m)))"

text \<open>The names of the six slots of the history record with index \<open>i\<close>.\<close>

definition historyKeys :: "int \<Rightarrow> string list" where
  "historyKeys i =
     map (\<lambda>field. ''adjustment_'' @ String i @ ''_'' @ field)
       [''type'', ''amount'', ''value_tokens'', ''deviation'', ''new_supply'', ''timestamp'']"

text \<open>What \<open>fetchEntry\<close> reads back of an adjustment that was written to the journal.\<close>

definition stored :: "AdjustmentResult \<Rightarrow> AdjustmentResult" where
  "stored a =
     \<lparr>Type = Type a,
      Amount = SetBytes (BytesToHash_Bytes (Amount a)),
      ValueTokens = SetBytes (BytesToHash_Bytes (ValueTokens a)),
      DeviationBps = SetBytes (BytesToHash_Bytes (DeviationBps a)),
      NewSupply = SetBytes (BytesToHash_Bytes (NewSupply a)),
      Timestamp = time_Unix (Int64 (SetBytes (BytesToHash_Bytes (Unix (Timestamp a)))))\<rparr>"

section \<open>Sequences of adjustments\<close>

text \<open>Calling \<open>ApplySupplyAdjustment\<close> for each decision of a list, in order.\<close>

fun applyAll ::
  "(string \<Rightarrow> 'h) \<Rightarrow> 'h UltraStableManager \<Rightarrow> Address \<Rightarrow> AdjustmentResult list
     \<Rightarrow> 'h UltraStableManager" where
  "applyAll HexToHash m treasuryAddr [] = m"
| "applyAll HexToHash m treasuryAddr (adjustment # rest) =
     applyAll HexToHash (snd (ApplySupplyAdjustment HexToHash m adjustment treasuryAddr))
       treasuryAddr rest"

text \<open>
  Every decision of the list is applied when its turn comes: it is not \<open>None\<close>, the
  ledger is accessible, the feasibility check accepts it and \<open>ValueTokens\<close> converts
  without overflow, so that the call reaches the mutation and the history append.
\<close>

fun allApplied ::
  "(string \<Rightarrow> 'h) \<Rightarrow> 'h UltraStableManager \<Rightarrow> Address \<Rightarrow> AdjustmentResult list \<Rightarrow> bool" where
  "allApplied HexToHash m treasuryAddr [] = True"
| "allApplied HexToHash m treasuryAddr (adjustment # rest) =
     (Type adjustment \<noteq> None_adj \<and> stateErr (blockchain m) = None \<and>
      feasible HexToHash m adjustment treasuryAddr \<and>
      \<not> snd (FromBig (ValueTokens adjustment)) \<and>
      allApplied HexToHash (snd (ApplySupplyAdjustment HexToHash m adjustment treasuryAddr))
        treasuryAddr rest)"

text \<open>
  The names of the slots that \<open>k\<close> applied adjustments write, starting at history
  count \<open>n\<close>: the supply, the count and the slots of the records \<open>n, ..., n + k - 1\<close>.
\<close>

definition journalKeys :: "int \<Rightarrow> nat \<Rightarrow> string list" where
  "journalKeys n k =
     ''ultrastable_current_supply'' # ''adjustment_history_count'' #
       concat (map historyKeys [n..n + int k - 1])"

section \<open>A sample chain\<close>

text \<open>
  A sample feasibility check after the spec's description of an infeasible adjustment
  (insufficient treasury balance, or a breach of the minimum supply). It sees what the
  source passes to it: the decision, the treasury balance and the minimum supply.
\<close>

definition sample_possible :: "AdjustmentResult \<Rightarrow> int \<Rightarrow> int \<Rightarrow> bool \<times> string" where
  "sample_possible adjustment balance minSupply =
     (if Type adjustment = Expansion \<and> balance < ValueTokens adjustment
      then (False, ''insufficient treasury balance'')
      else if Type adjustment = Contraction \<and> NewSupply adjustment < minSupply
      then (False, ''below minimum supply'')
      else (True, []))"

definition sample_proprietary :: proprietary_Manager where
  "sample_proprietary =
     \<lparr>GetLastUpdateTime = 1700000000000000000,
      CalculateSupplyAdjustment = (\<lambda>supply price volatility.
         \<lparr>Type = Expansion, Amount = supply div 100, ValueTokens = price,
          DeviationBps = uint volatility, NewSupply = supply + supply div 100,
          Timestamp = 1700000000000000000\<rparr>),
      IsAdjustmentPossible = sample_possible,
      GetTargetStableValue = 1000000000000000000,
      GetCurrentStableValue = 990000000000000000\<rparr>"

definition sample_treasury :: Address where
  "sample_treasury = 0x7EA5"

text \<open>
  Supply \<open>1,000,000 * 10^18\<close>, minimum supply \<open>10^18\<close>, treasury balance \<open>500 * 10^18\<close>,
  an empty journal. Slots are named by their key strings (\<open>HexToHash\<close> is the identity).
\<close>

definition sample_state :: "string StateDB" where
  "sample_state =
     SetState (SetState (SetState
       (AddBalance \<lparr>balances = (\<lambda>a. 0), storage = (\<lambda>a k. 0)\<rparr> sample_treasury
          500000000000000000000)
       UltraStableTokenSystemAddress ''ultrastable_current_supply'' 1000000000000000000000000)
       UltraStableTokenSystemAddress ''ultrastable_minimum_supply'' 1000000000000000000)
       UltraStableTokenSystemAddress ''adjustment_history_count'' 0"

definition sample_manager :: "string UltraStableManager" where
  "sample_manager =
     \<lparr>blockchain = \<lparr>currentState = sample_state, stateErr = None\<rparr>,
      proprietary = sample_proprietary, lastUpdateTime = 0, updateFeed = [], adjustFeed = []\<rparr>"

definition sample_none :: AdjustmentResult where
  "sample_none =
     \<lparr>Type = None_adj, Amount = 0, ValueTokens = 0, DeviationBps = 3,
      NewSupply = 1000000000000000000000000, Timestamp = 1700000000000000000\<rparr>"

definition sample_expansion :: AdjustmentResult where
  "sample_expansion =
     \<lparr>Type = Expansion, Amount = 10000000000000000000000, ValueTokens = 50000000000000000000,
      DeviationBps = 120, NewSupply = 1010000000000000000000000, Timestamp = 1700000000000000000\<rparr>"

definition sample_contraction :: AdjustmentResult where
  "sample_contraction =
     \<lparr>Type = Contraction, Amount = 10000000000000000000000, ValueTokens = 50000000000000000000,
      DeviationBps = 120, NewSupply = 990000000000000000000000, Timestamp = 1700000060000000000\<rparr>"

text \<open>An \<open>Expansion\<close> that asks for more value tokens than the treasury holds.\<close>

definition sample_insolvent :: AdjustmentResult where
  "sample_insolvent =
     \<lparr>Type = Expansion, Amount = 10000000000000000000000, ValueTokens = 600000000000000000000,
      DeviationBps = 120, NewSupply = 1010000000000000000000000, Timestamp = 1700000000000000000\<rparr>"

text \<open>An \<open>Expansion\<close> whose \<open>NewSupply\<close> field is not the supply that results.\<close>

definition sample_misreported :: AdjustmentResult where
  "sample_misreported =
     \<lparr>Type = Expansion, Amount = 10000000000000000000000, ValueTokens = 50000000000000000000,
      DeviationBps = 120, NewSupply = 999, Timestamp = 1700000000000000000\<rparr>"

text \<open>Decisions whose \<open>ValueTokens\<close> is \<open>2 ^ 256\<close>, one bit too wide for a balance.\<close>

definition sample_wide_contraction :: AdjustmentResult where
  "sample_wide_contraction =
     \<lparr>Type = Contraction, Amount = 10000000000000000000000, ValueTokens = 2 ^ 256,
      DeviationBps = 120, NewSupply = 990000000000000000000000, Timestamp = 1700000000000000000\<rparr>"

definition sample_wide_expansion :: AdjustmentResult where
  "sample_wide_expansion =
     \<lparr>Type = Expansion, Amount = 10000000000000000000000, ValueTokens = 2 ^ 256,
      DeviationBps = 120, NewSupply = 1010000000000000000000000, Timestamp = 1700000000000000000\<rparr>"

definition sample_wide_none :: AdjustmentResult where
  "sample_wide_none =
     \<lparr>Type = None_adj, Amount = 0, ValueTokens = 2 ^ 256,
      DeviationBps = 0, NewSupply = 1000000000000000000000000, Timestamp = 1700000000000000000\<rparr>"

text \<open>The sample manager with a feasibility check that accepts every decision.\<close>

definition permissive_manager :: "string UltraStableManager" where
  "permissive_manager =
     sample_manager\<lparr>proprietary :=
       sample_proprietary\<lparr>IsAdjustmentPossible := (\<lambda>adjustment balance minSupply. (True, []))\<rparr>\<rparr>"

text \<open>The sample chain with a stored value-token price of \<open>2 * 10^18\<close>.\<close>

definition priced_manager :: "string UltraStableManager" where
  "priced_manager =
     withState sample_manager
       (SetState sample_state O2ULTokenSystemAddress ''value_token_price'' 2000000000000000000)"

text \<open>A genesis configuration.\<close>

definition sample_config :: ultrastable_Config where
  "sample_config =
     \<lparr>InitialSupply = 1000000000000000000000000, UpdateFrequency = 21600,
      ContinentalWeights = [(''Europe'', 20), (''Asia'', 25)],
      TimeframeWeights = [(''Current'', 15), (''1Week'', 15)],
      SmoothingWindows = [(''1Week'', 7)]\<rparr>"

text \<open>The sample chain after an expansion and a contraction.\<close>

definition journal_manager :: "string UltraStableManager" where
  "journal_manager =
     applyAll (\<lambda>key. key) sample_manager sample_treasury [sample_expansion, sample_contraction]"

section \<open>The key hashing of go-ethereum\<close>

text \<open>
  \<open>common.HexToHash(s)\<close> is \<open>BytesToHash(FromHex(s))\<close> in go-ethereum's package
  \<open>common\<close>, which this repository inherits and which is not among the sources at hand;
  the definitions follow that package and Go's \<open>encoding/hex\<close>. \<open>FromHex\<close> drops a
  leading \<open>0x\<close> or \<open>0X\<close>, puts a \<open>0\<close> in front of a string of odd length and hands it
  to \<open>Hex2Bytes\<close>, which decodes it two hex digits at a time and discards the error
  of \<open>hex.DecodeString\<close>: what it returns is the bytes decoded before the first pair
  that is not two hex digits.
\<close>

definition has0xPrefix :: "string \<Rightarrow> bool" where
  "has0xPrefix str =
     (2 \<le> length str \<and> str ! 0 = CHR ''0'' \<and> (str ! 1 = CHR ''x'' \<or> str ! 1 = CHR ''X''))"

definition fromHexChar :: "char \<Rightarrow> nat option" where
  "fromHexChar c =
     (let n = (of_char c :: nat)
      in if 48 \<le> n \<and> n \<le> 57 then Some (n - 48)
         else if 97 \<le> n \<and> n \<le> 102 then Some (n - 97 + 10)
         else if 65 \<le> n \<and> n \<le> 70 then Some (n - 65 + 10)
         else None)"

fun Hex2Bytes :: "string \<Rightarrow> 8 word list" where
  "Hex2Bytes (p # q # rest) =
     (case fromHexChar p of
        None \<Rightarrow> []
      | Some a \<Rightarrow>
          (case fromHexChar q of
             None \<Rightarrow> []
           | Some b \<Rightarrow> word_of_nat (a * 16 + b) # Hex2Bytes rest))"
| "Hex2Bytes str = []"

definition FromHex :: "string \<Rightarrow> 8 word list" where
  "FromHex s =
     (let s = (if has0xPrefix s then drop 2 s else s);
          s = (if length s mod 2 = 1 then CHR ''0'' # s else s)
      in Hex2Bytes s)"

definition common_HexToHash :: "string \<Rightarrow> uint256" where
  "common_HexToHash s = BytesToHash (FromHex s)"

section \<open>A sample chain with the slots of go-ethereum\<close>

text \<open>
  The spec's first scenario: the word of the current supply is \<open>1,000,000 * 10^18\<close>,
  the treasury holds \<open>500 * 10^18\<close>, the history count is 0.
\<close>

definition chain_state :: "uint256 StateDB" where
  "chain_state =
     SetState (SetState
       (AddBalance \<lparr>balances = (\<lambda>a. 0), storage = (\<lambda>a k. 0)\<rparr> sample_treasury
          500000000000000000000)
       UltraStableTokenSystemAddress (common_HexToHash ''ultrastable_current_supply'')
         1000000000000000000000000)
       UltraStableTokenSystemAddress (common_HexToHash ''adjustment_history_count'') 0"

definition chain_manager :: "uint256 UltraStableManager" where
  "chain_manager =
     \<lparr>blockchain = \<lparr>currentState = chain_state, stateErr = None\<rparr>,
      proprietary = sample_proprietary, lastUpdateTime = 0, updateFeed = [], adjustFeed = []\<rparr>"

text \<open>The same chain with a feasibility check that accepts every decision.\<close>

definition permissive_chain_manager :: "uint256 UltraStableManager" where
  "permissive_chain_manager =
     chain_manager\<lparr>proprietary :=
       sample_proprietary\<lparr>IsAdjustmentPossible := (\<lambda>adjustment balance minSupply. (True, []))\<rparr>\<rparr>"

text \<open>
  A chain whose supply word is \<open>2 * 10^18\<close>, and a \<open>Contraction\<close> by \<open>10^18\<close> that
  was computed when the supply was \<open>10 * 10^18\<close>, so that its \<open>NewSupply\<close> field says
  \<open>9 * 10^18\<close>.
\<close>

definition low_chain_state :: "uint256 StateDB" where
  "low_chain_state =
     SetState (SetState
       (AddBalance \<lparr>balances = (\<lambda>a. 0), storage = (\<lambda>a k. 0)\<rparr> sample_treasury
          500000000000000000000)
       UltraStableTokenSystemAddress (common_HexToHash ''ultrastable_minimum_supply'')
         2000000000000000000)
       UltraStableTokenSystemAddress (common_HexToHash ''adjustment_history_count'') 0"

definition low_chain_manager :: "uint256 UltraStableManager" where
  "low_chain_manager =
     \<lparr>blockchain = \<lparr>currentState = low_chain_state, stateErr = None\<rparr>,
      proprietary = sample_proprietary, lastUpdateTime = 0, updateFeed = [], adjustFeed = []\<rparr>"

definition stale_contraction :: AdjustmentResult where
  "stale_contraction =
     \<lparr>Type = Contraction, Amount = 1000000000000000000, ValueTokens = 1000000000000000000,
      DeviationBps = 120, NewSupply = 9000000000000000000, Timestamp = 1700000000000000000\<rparr>"

text \<open>The chain that the genesis set-up makes of the sample configuration.\<close>

definition genesis_chain_manager :: "uint256 UltraStableManager" where
  "genesis_chain_manager =
     \<lparr>blockchain =
        \<lparr>currentState = SetupUltraStableToken common_HexToHash sample_config 1700000000000000000
                          \<lparr>balances = (\<lambda>a. 0), storage = (\<lambda>a k. 0)\<rparr> sample_treasury,
         stateErr = None\<rparr>,
      proprietary = sample_proprietary, lastUpdateTime = 0, updateFeed = [], adjustFeed = []\<rparr>"

section \<open>Properties\<close>

subsection \<open>Words and conversions\<close>

lemma SetBytes_BytesToHash:
  "0 \<le> x \<Longrightarrow> x < 2 ^ 256 \<Longrightarrow> SetBytes (BytesToHash_Bytes x) = x"
  by (simp add: SetBytes_def BytesToHash_Bytes_def uint_word_of_int)

lemma uint_sub_FromBig:
  fixes b :: uint256
  assumes "0 \<le> v" "v \<le> uint b"
  shows "uint (b - fst (FromBig v)) = uint b - v"
proof -
  have "uint b < 2 ^ 256" using uint_lt2p [of b] by simp
  with assms have v: "uint (word_of_int v :: uint256) = v"
    by (simp add: uint_word_of_int)
  then have "uint (word_of_int v :: uint256) \<le> uint b" using assms by simp
  then have "uint (b - word_of_int v) = uint b - uint (word_of_int v :: uint256)"
    by (simp add: uint_sub_lem)
  with v show ?thesis by (simp add: FromBig_def)
qed

lemma uint_add_FromBig:
  fixes b :: uint256
  assumes "0 \<le> v" "uint b + v < 2 ^ 256"
  shows "uint (b + fst (FromBig v)) = uint b + v"
proof -
  have "0 \<le> uint b" by simp
  with assms have "v < 2 ^ 256" by linarith
  with assms have v: "uint (word_of_int v :: uint256) = v"
    by (simp add: uint_word_of_int)
  then have "uint b + uint (word_of_int v :: uint256) < 2 ^ LENGTH(256)" using assms by simp
  then have "uint (b + word_of_int v) = uint b + uint (word_of_int v :: uint256)"
    by (simp only: uint_add_lem)
  with v show ?thesis by (simp add: FromBig_def)
qed

lemma no_overflow_le_balance:
  fixes b :: uint256
  assumes "0 \<le> v" "v \<le> uint b"
  shows "\<not> snd (FromBig v)"
proof -
  have "uint b < 2 ^ 256" using uint_lt2p [of b] by simp
  with assms show ?thesis by (simp add: FromBig_def)
qed

lemma Int64_id: "- (2 ^ 63) \<le> x \<Longrightarrow> x < 2 ^ 63 \<Longrightarrow> Int64 x = x"
  by (simp add: Int64_def)

lemma typeValue_stored:
  "Int64 (SetBytes (BytesToHash_Bytes (case t of Expansion \<Rightarrow> 1 | Contraction \<Rightarrow> 2 | _ \<Rightarrow> 0)))
     = (case t of Expansion \<Rightarrow> 1 | Contraction \<Rightarrow> 2 | _ \<Rightarrow> 0)"
  by (cases t) (simp_all add: Int64_def SetBytes_def BytesToHash_Bytes_def)

lemma typeValue_decoded:
  "(if (case t of Expansion \<Rightarrow> 1 | Contraction \<Rightarrow> 2 | _ \<Rightarrow> (0::int)) = 1 then Expansion
    else if (case t of Expansion \<Rightarrow> 1 | Contraction \<Rightarrow> 2 | _ \<Rightarrow> (0::int)) = 2 then Contraction
    else None_adj) = t"
  by (cases t) simp_all

subsection \<open>Decimal digits and the names of the slots\<close>

text \<open>
  The decimal printing is injective and never prints an underscore, so the key names of
  the journal are pairwise distinct.
\<close>

lemma digit_cases:
  "d < (10::nat) \<Longrightarrow>
     d = 0 \<or> d = 1 \<or> d = 2 \<or> d = 3 \<or> d = 4 \<or> d = 5 \<or> d = 6 \<or> d = 7 \<or> d = 8 \<or> d = 9"
  by arith

lemma digit_val_digit_char: "d < 10 \<Longrightarrow> digit_val (digit_char d) = d"
  using digit_cases [of d] by (auto simp: digit_val_def digit_char_def)

lemma digit_char_in: "d < 10 \<Longrightarrow> digit_char d \<in> set ''0123456789''"
  using digit_cases [of d] by (auto simp: digit_char_def)

lemma digits_set: "set (digits n) \<subseteq> set ''0123456789''"
proof (induction n rule: digits.induct)
  case (1 n)
  show ?case
  proof (cases "n < 10")
    case True
    then show ?thesis
      using digit_char_in [of n] by (simp add: digits.simps [of n])
  next
    case False
    have "n mod 10 < 10" by simp
    then have "digit_char (n mod 10) \<in> set ''0123456789''" by (rule digit_char_in)
    with False "1.IH" show ?thesis
      by (simp add: digits.simps [of n])
  qed
qed

lemma digits_nonempty: "digits n \<noteq> []"
  by (simp add: digits.simps [of n])

lemma digits_val_single: "digits_val [c] = digit_val c"
  by (simp add: digits_val_def)

lemma digits_val_snoc: "digits_val (s @ [c]) = 10 * digits_val s + digit_val c"
  by (simp add: digits_val_def)

lemma digits_val_digits: "digits_val (digits n) = n"
proof (induction n rule: digits.induct)
  case (1 n)
  show ?case
  proof (cases "n < 10")
    case True
    then have "digits n = [digit_char n]" by (simp add: digits.simps [of n])
    then show ?thesis
      using True by (simp only: digits_val_single digit_val_digit_char)
  next
    case False
    then have d: "digits n = digits (n div 10) @ [digit_char (n mod 10)]"
      by (simp add: digits.simps [of n])
    have "digit_val (digit_char (n mod 10)) = n mod 10"
      by (rule digit_val_digit_char) simp
    moreover have "digits_val (digits (n div 10)) = n div 10"
      using False by (rule "1.IH")
    ultimately have "digits_val (digits n) = 10 * (n div 10) + n mod 10"
      by (simp only: d digits_val_snoc)
    then show ?thesis by simp
  qed
qed

lemma digits_inj: "digits m = digits n \<Longrightarrow> m = n"
  by (metis digits_val_digits)

lemma underscore_split:
  assumes "CHR ''_'' \<notin> set a" "CHR ''_'' \<notin> set b" "a @ CHR ''_'' # x = b @ CHR ''_'' # y"
  shows "a = b \<and> x = y"
  using assms
proof (induction a arbitrary: b)
  case Nil
  then show ?case by (cases b) auto
next
  case (Cons c a)
  then show ?case by (cases b) auto
qed

lemma digits_no_underscore: "CHR ''_'' \<notin> set (digits n)"
  using digits_set [of n] by auto

lemma String_nonneg: "0 \<le> i \<Longrightarrow> String i = digits (nat i)"
  by (simp add: String_def)

lemma historyKeys_simp:
  "historyKeys i =
    [''adjustment_'' @ String i @ ''_type'', ''adjustment_'' @ String i @ ''_amount'',
     ''adjustment_'' @ String i @ ''_value_tokens'', ''adjustment_'' @ String i @ ''_deviation'',
     ''adjustment_'' @ String i @ ''_new_supply'', ''adjustment_'' @ String i @ ''_timestamp'']"
  by (simp add: historyKeys_def)

lemma history_key_eq:
  assumes "0 \<le> i" "0 \<le> j"
    and "''adjustment_'' @ String i @ ''_'' @ f = ''adjustment_'' @ String j @ ''_'' @ g"
  shows "i = j \<and> f = g"
proof -
  from assms have "digits (nat i) @ CHR ''_'' # f = digits (nat j) @ CHR ''_'' # g"
    by (simp add: String_nonneg)
  then have "digits (nat i) = digits (nat j) \<and> f = g"
    by (rule underscore_split [OF digits_no_underscore digits_no_underscore])
  then show ?thesis using assms(1,2) digits_inj [of "nat i" "nat j"] by auto
qed

lemma in_historyKeys:
  "k \<in> set (historyKeys i) \<Longrightarrow> \<exists>f. k = ''adjustment_'' @ String i @ ''_'' @ f"
  by (auto simp: historyKeys_def)

lemma historyKeys_distinct: "distinct (historyKeys i)"
  by (simp add: historyKeys_simp)

lemma historyKeys_disjoint:
  assumes "0 \<le> i" "0 \<le> j" "i \<noteq> j"
  shows "set (historyKeys i) \<inter> set (historyKeys j) = {}"
proof (rule ccontr)
  assume "set (historyKeys i) \<inter> set (historyKeys j) \<noteq> {}"
  then obtain k where "k \<in> set (historyKeys i)" "k \<in> set (historyKeys j)" by auto
  then obtain f g where "k = ''adjustment_'' @ String i @ ''_'' @ f"
    and "k = ''adjustment_'' @ String j @ ''_'' @ g"
    using in_historyKeys by blast
  then have "i = j" using history_key_eq [OF assms(1,2), of f g] by simp
  with assms(3) show False by simp
qed

lemma supply_not_history: "''ultrastable_current_supply'' \<notin> set (historyKeys i)"
  by (simp add: historyKeys_simp)

lemma count_not_history:
  assumes "0 \<le> i"
  shows "''adjustment_history_count'' \<notin> set (historyKeys i)"
proof
  assume "''adjustment_history_count'' \<in> set (historyKeys i)"
  then obtain f where "''adjustment_history_count'' = ''adjustment_'' @ String i @ ''_'' @ f"
    using in_historyKeys by blast
  then have e: "''history_count'' = digits (nat i) @ ''_'' @ f"
    using assms by (simp add: String_nonneg)
  obtain c cs where d: "digits (nat i) = c # cs"
    using digits_nonempty [of "nat i"] by (cases "digits (nat i)") auto
  then have "c \<in> set ''0123456789''" using digits_set [of "nat i"] by auto
  moreover from e d have "c = CHR ''h''" by simp
  ultimately show False by simp
qed

lemma journalKeys_Suc:
  "journalKeys n (Suc k) =
     ''ultrastable_current_supply'' # ''adjustment_history_count'' #
       historyKeys n @ concat (map historyKeys [n + 1..n + 1 + int k - 1])"
proof -
  have "[n..n + int (Suc k) - 1] = n # [n + 1..n + 1 + int k - 1]"
    by (simp add: upto_rec1 add.commute add.left_commute)
  then show ?thesis by (simp add: journalKeys_def)
qed

lemma journalKeys_split:
  assumes "distinct (map H (journalKeys n (Suc k)))"
  shows "distinct (map H (''ultrastable_current_supply'' # ''adjustment_history_count''
                 # historyKeys n))"
    and "distinct (map H (journalKeys (n + 1) k))"
    and "H ` set (historyKeys n) \<inter> H ` set (journalKeys (n + 1) k) = {}"
  using assms unfolding journalKeys_Suc journalKeys_def [of "n + 1" k]
  by auto

lemma journalKeys_distinct:
  "0 \<le> n \<Longrightarrow> distinct (journalKeys n k)"
proof (induction k arbitrary: n)
  case 0
  then show ?case by (simp add: journalKeys_def)
next
  case (Suc k)
  let ?rest = "concat (map historyKeys [n + 1..n + 1 + int k - 1])"
  have ih: "distinct (journalKeys (n + 1) k)" using Suc.prems by (intro Suc.IH) simp
  then have r: "''ultrastable_current_supply'' \<notin> set ?rest"
    "''adjustment_history_count'' \<notin> set ?rest" "distinct ?rest"
    by (simp_all add: journalKeys_def)
  have disj: "set (historyKeys n) \<inter> set ?rest = {}"
  proof -
    have "x \<notin> set (historyKeys j)"
      if "j \<in> set [n + 1..n + 1 + int k - 1]" and "x \<in> set (historyKeys n)" for j x
    proof -
      from that(1) Suc.prems have "0 \<le> j" "n \<noteq> j" by auto
      then have "set (historyKeys n) \<inter> set (historyKeys j) = {}"
        using Suc.prems by (intro historyKeys_disjoint)
      with that(2) show ?thesis by blast
    qed
    then show ?thesis by fastforce
  qed
  show ?case
    unfolding journalKeys_Suc
    using r disj historyKeys_distinct [of n] supply_not_history [of n]
      count_not_history [OF Suc.prems]
    by auto
qed

lemma journalKeys_distinct_map:
  assumes "inj_on H (set (journalKeys n k))" "0 \<le> n"
  shows "distinct (map H (journalKeys n k))"
  using assms by (simp add: distinct_map journalKeys_distinct)

lemma journalKeys_1:
  "journalKeys n 1 = ''ultrastable_current_supply'' # ''adjustment_history_count'' # historyKeys n"
  by (simp add: journalKeys_def)

subsection \<open>Reading the ledger after a write\<close>

lemmas ledger_ops = State_def GetState_def SetState_def GetBalance_def AddBalance_def
  SubBalance_def withState_def ledger_def

lemma GetState_SetState_same: "GetState (SetState s a k v) a k = v"
  by (simp add: GetState_def SetState_def)

lemma GetState_SetState_other: "k \<noteq> k' \<Longrightarrow> GetState (SetState s a k' v) a k = GetState s a k"
  by (simp add: GetState_def SetState_def)

lemma ledger_adjustFeed [simp]: "ledger (m\<lparr>adjustFeed := f\<rparr>) = ledger m"
  by (simp add: ledger_def)

lemma ledger_withState [simp]: "ledger (withState m s) = s"
  by (simp add: ledger_def withState_def)

lemma stateErr_withState [simp]: "stateErr (blockchain (withState m s)) = stateErr (blockchain m)"
  by (simp add: withState_def)

lemma currentSupply_nonneg: "0 \<le> currentSupply H s"
  by (simp add: currentSupply_def SetBytes_def)

lemma historyCount_nonneg: "0 \<le> historyCount H s"
  by (simp add: historyCount_def SetBytes_def)

lemma historyCount_supply_write:
  assumes "H ''adjustment_history_count'' \<noteq> H ''ultrastable_current_supply''"
  shows "historyCount H (SetState (SubBalance s t x) UltraStableTokenSystemAddress
            (H ''ultrastable_current_supply'') v) = historyCount H s"
    and "historyCount H (SetState (AddBalance s t x) UltraStableTokenSystemAddress
            (H ''ultrastable_current_supply'') v) = historyCount H s"
  using assms by (simp_all add: historyCount_def GetState_def SetState_def SubBalance_def AddBalance_def)

lemma upd7_read:
  assumes "distinct [k0, k1, k2, k3, k4, k5, k6]"
  shows "(f(k0 := v0, k1 := v1, k2 := v2, k3 := v3, k4 := v4, k5 := v5, k6 := v6)) k0 = v0"
    and "(f(k0 := v0, k1 := v1, k2 := v2, k3 := v3, k4 := v4, k5 := v5, k6 := v6)) k1 = v1"
    and "(f(k0 := v0, k1 := v1, k2 := v2, k3 := v3, k4 := v4, k5 := v5, k6 := v6)) k2 = v2"
    and "(f(k0 := v0, k1 := v1, k2 := v2, k3 := v3, k4 := v4, k5 := v5, k6 := v6)) k3 = v3"
    and "(f(k0 := v0, k1 := v1, k2 := v2, k3 := v3, k4 := v4, k5 := v5, k6 := v6)) k4 = v4"
    and "(f(k0 := v0, k1 := v1, k2 := v2, k3 := v3, k4 := v4, k5 := v5, k6 := v6)) k5 = v5"
    and "(f(k0 := v0, k1 := v1, k2 := v2, k3 := v3, k4 := v4, k5 := v5, k6 := v6)) k6 = v6"
  using assms by auto

subsection \<open>One history append\<close>

lemma uah_balances:
  "balances (ledger (updateAdjustmentHistory H m a)) = balances (ledger m)"
  by (simp add: updateAdjustmentHistory_def ledger_ops Let_def split: option.splits)

lemma uah_stateErr [simp]:
  "stateErr (blockchain (updateAdjustmentHistory H m a)) = stateErr (blockchain m)"
  by (simp add: updateAdjustmentHistory_def State_def withState_def Let_def split: option.splits)

lemma uah_count:
  assumes "stateErr (blockchain m) = None"
    and "distinct (map H (''adjustment_history_count'' # historyKeys (historyCount H (ledger m))))"
  shows "GetState (ledger (updateAdjustmentHistory H m a)) UltraStableTokenSystemAddress (H ''adjustment_history_count'')
         = BytesToHash_Bytes (historyCount H (ledger m) + 1)"
  using assms
  by (simp add: updateAdjustmentHistory_def ledger_ops Let_def historyCount_def historyKeys_simp)

lemma uah_other:
  assumes "k \<notin> H ` set (''adjustment_history_count'' # historyKeys (historyCount H (ledger m)))"
  shows "GetState (ledger (updateAdjustmentHistory H m a)) UltraStableTokenSystemAddress k
         = GetState (ledger m) UltraStableTokenSystemAddress k"
  using assms
  by (simp add: updateAdjustmentHistory_def ledger_ops Let_def historyCount_def historyKeys_simp split: option.splits)

lemma uah_storage:
  assumes "stateErr (blockchain m) = None"
  shows "storage (ledger (updateAdjustmentHistory H m a)) UltraStableTokenSystemAddress =
    (storage (ledger m) UltraStableTokenSystemAddress)
      (H ''adjustment_history_count'' := BytesToHash_Bytes (historyCount H (ledger m) + 1),
       H (historyKeys (historyCount H (ledger m)) ! 0) :=
         BytesToHash_Bytes (case Type a of Expansion \<Rightarrow> 1 | Contraction \<Rightarrow> 2 | _ \<Rightarrow> 0),
       H (historyKeys (historyCount H (ledger m)) ! 1) := BytesToHash_Bytes (Amount a),
       H (historyKeys (historyCount H (ledger m)) ! 2) := BytesToHash_Bytes (ValueTokens a),
       H (historyKeys (historyCount H (ledger m)) ! 3) := BytesToHash_Bytes (DeviationBps a),
       H (historyKeys (historyCount H (ledger m)) ! 4) := BytesToHash_Bytes (NewSupply a),
       H (historyKeys (historyCount H (ledger m)) ! 5) := BytesToHash_Bytes (Unix (Timestamp a)))"
  using assms
  by (simp add: updateAdjustmentHistory_def ledger_ops Let_def historyCount_def historyKeys_simp)

lemma fetchEntry_keys:
  "fetchEntry H s i =
    \<lparr>Type = (if Int64 (SetBytes (storage s UltraStableTokenSystemAddress (H (historyKeys i ! 0)))) = 1
              then Expansion
              else if Int64 (SetBytes (storage s UltraStableTokenSystemAddress (H (historyKeys i ! 0)))) = 2
              then Contraction else None_adj),
      Amount = SetBytes (storage s UltraStableTokenSystemAddress (H (historyKeys i ! 1))),
      ValueTokens = SetBytes (storage s UltraStableTokenSystemAddress (H (historyKeys i ! 2))),
      DeviationBps = SetBytes (storage s UltraStableTokenSystemAddress (H (historyKeys i ! 3))),
      NewSupply = SetBytes (storage s UltraStableTokenSystemAddress (H (historyKeys i ! 4))),
      Timestamp = time_Unix (Int64 (SetBytes
        (storage s UltraStableTokenSystemAddress (H (historyKeys i ! 5)))))\<rparr>"
  by (simp add: fetchEntry_def Let_def GetState_def historyKeys_simp)

lemma fetchEntry_cong:
  assumes "\<forall>k \<in> H ` set (historyKeys i).
             GetState s' UltraStableTokenSystemAddress k = GetState s UltraStableTokenSystemAddress k"
  shows "fetchEntry H s' i = fetchEntry H s i"
  using assms by (simp add: fetchEntry_keys historyKeys_simp GetState_def)

lemma uah_fetch:
  assumes e: "stateErr (blockchain m) = None"
    and d: "distinct (map H (''adjustment_history_count'' # historyKeys (historyCount H (ledger m))))"
  shows "fetchEntry H (ledger (updateAdjustmentHistory H m a)) (historyCount H (ledger m)) = stored a"
proof -
  let ?n = "historyCount H (ledger m)"
  have d': "distinct [H ''adjustment_history_count'', H (historyKeys ?n ! 0), H (historyKeys ?n ! 1),
      H (historyKeys ?n ! 2), H (historyKeys ?n ! 3), H (historyKeys ?n ! 4), H (historyKeys ?n ! 5)]"
    using d by (simp add: historyKeys_simp)
  show ?thesis
    unfolding fetchEntry_keys uah_storage [OF e] upd7_read [OF d'] typeValue_stored
      typeValue_decoded stored_def
    by simp
qed

subsection \<open>One call of \<open>ApplySupplyAdjustment\<close>\<close>

lemmas apply_defs = ApplySupplyAdjustment_def updateAdjustmentHistory_def State_def withState_def
  FromBig_def BytesToHash_Bytes_def Let_def

lemma apply_expansion_eq:
  assumes "Type a = Expansion" "stateErr (blockchain m) = None" "feasible H m a t"
    "\<not> snd (FromBig (ValueTokens a))"
  shows "ApplySupplyAdjustment H m a t =
    (None, (updateAdjustmentHistory H
       (withState m (SetState (SubBalance (ledger m) t (fst (FromBig (ValueTokens a))))
          UltraStableTokenSystemAddress (H ''ultrastable_current_supply'')
          (BytesToHash_Bytes (currentSupply H (ledger m) + Amount a)))) a)
       \<lparr>adjustFeed := adjustFeed m @ [a]\<rparr>)"
  using assms
  by (simp add: ApplySupplyAdjustment_def feasible_def State_def Let_def split_beta
      treasuryBalance_def minimumSupply_def currentSupply_def ledger_def
      GetState_def SubBalance_def SetState_def withState_def GetBalance_def updateAdjustmentHistory_def)

lemma apply_contraction_eq:
  assumes "Type a = Contraction" "stateErr (blockchain m) = None" "feasible H m a t"
    "\<not> snd (FromBig (ValueTokens a))"
  shows "ApplySupplyAdjustment H m a t =
    (None, (updateAdjustmentHistory H
       (withState m (SetState (AddBalance (ledger m) t (fst (FromBig (ValueTokens a))))
          UltraStableTokenSystemAddress (H ''ultrastable_current_supply'')
          (BytesToHash_Bytes (currentSupply H (ledger m) - Amount a)))) a)
       \<lparr>adjustFeed := adjustFeed m @ [a]\<rparr>)"
  using assms
  by (simp add: ApplySupplyAdjustment_def feasible_def State_def Let_def split_beta
      treasuryBalance_def minimumSupply_def currentSupply_def ledger_def
      GetState_def AddBalance_def SetState_def withState_def GetBalance_def updateAdjustmentHistory_def)

lemma apply_infeasible_eq:
  assumes "Type a \<noteq> None_adj" "stateErr (blockchain m) = None" "\<not> feasible H m a t"
  shows "ApplySupplyAdjustment H m a t = (None, m)"
  using assms
  by (simp add: ApplySupplyAdjustment_def feasible_def State_def Let_def split_beta
      treasuryBalance_def minimumSupply_def ledger_def)

lemma apply_overflow_eq:
  assumes "Type a \<noteq> None_adj" "stateErr (blockchain m) = None" "feasible H m a t"
    "snd (FromBig (ValueTokens a))"
  shows "ApplySupplyAdjustment H m a t = (Some (errors_New ''value token amount overflow''), m)"
  using assms
  by (cases "Type a")
     (simp_all add: ApplySupplyAdjustment_def feasible_def State_def Let_def split_beta
      treasuryBalance_def minimumSupply_def ledger_def)

lemma apply_not_applied_eq:
  assumes "\<not> (Type a \<noteq> None_adj \<and> stateErr (blockchain m) = None \<and> feasible H m a t
                 \<and> \<not> snd (FromBig (ValueTokens a)))"
  shows "snd (ApplySupplyAdjustment H m a t) = m"
  using assms
  by (cases "Type a")
     (auto simp: ApplySupplyAdjustment_def State_def Let_def split_beta feasible_def
        treasuryBalance_def minimumSupply_def ledger_def split: option.splits)

lemma apply_stateErr [simp]:
  "stateErr (blockchain (snd (ApplySupplyAdjustment H m a t))) = stateErr (blockchain m)"
proof (cases "Type a \<noteq> None_adj \<and> stateErr (blockchain m) = None \<and> feasible H m a t
                 \<and> \<not> snd (FromBig (ValueTokens a))")
  case False
  then show ?thesis using apply_not_applied_eq [of a m H t] by simp
next
  case True
  then show ?thesis
    by (cases "Type a") (simp_all add: apply_expansion_eq apply_contraction_eq)
qed

lemma apply_applied_fetch:
  fixes H :: "string \<Rightarrow> 'h"
  assumes kind: "Type a \<noteq> None_adj"
    and state: "stateErr (blockchain m) = None"
    and feas: "feasible H m a t"
    and nov: "\<not> snd (FromBig (ValueTokens a))"
    and keys: "distinct (map H (''ultrastable_current_supply'' # ''adjustment_history_count''
                 # historyKeys (historyCount H (ledger m))))"
  shows "fetchEntry H (ledger (snd (ApplySupplyAdjustment H m a t))) (historyCount H (ledger m))
           = stored a"
proof -
  have neq: "H ''adjustment_history_count'' \<noteq> H ''ultrastable_current_supply''"
    using keys by auto
  have k: "distinct (map H (''adjustment_history_count'' # historyKeys (historyCount H (ledger m))))"
    using keys by simp
  show ?thesis
  proof (cases "Type a")
    case None_adj
    with kind show ?thesis by simp
  next
    case Expansion
    let ?m1 = "withState m (SetState (SubBalance (ledger m) t (fst (FromBig (ValueTokens a))))
          UltraStableTokenSystemAddress (H ''ultrastable_current_supply'')
          (BytesToHash_Bytes (currentSupply H (ledger m) + Amount a)))"
    have c1: "historyCount H (ledger ?m1) = historyCount H (ledger m)"
      using neq by (simp add: historyCount_supply_write)
    have e1: "stateErr (blockchain ?m1) = None" using state by simp
    have "fetchEntry H (ledger (updateAdjustmentHistory H ?m1 a)) (historyCount H (ledger ?m1))
            = stored a"
      by (rule uah_fetch [OF e1]) (use k c1 in simp)
    then show ?thesis
      unfolding apply_expansion_eq [OF Expansion state feas nov] c1 by simp
  next
    case Contraction
    let ?m1 = "withState m (SetState (AddBalance (ledger m) t (fst (FromBig (ValueTokens a))))
          UltraStableTokenSystemAddress (H ''ultrastable_current_supply'')
          (BytesToHash_Bytes (currentSupply H (ledger m) - Amount a)))"
    have c1: "historyCount H (ledger ?m1) = historyCount H (ledger m)"
      using neq by (simp add: historyCount_supply_write)
    have e1: "stateErr (blockchain ?m1) = None" using state by simp
    have "fetchEntry H (ledger (updateAdjustmentHistory H ?m1 a)) (historyCount H (ledger ?m1))
            = stored a"
      by (rule uah_fetch [OF e1]) (use k c1 in simp)
    then show ?thesis
      unfolding apply_contraction_eq [OF Contraction state feas nov] c1 by simp
  qed
qed

lemma apply_applied_count:
  fixes H :: "string \<Rightarrow> 'h"
  assumes kind: "Type a \<noteq> None_adj"
    and state: "stateErr (blockchain m) = None"
    and feas: "feasible H m a t"
    and nov: "\<not> snd (FromBig (ValueTokens a))"
    and cnt: "historyCount H (ledger m) + 1 < 2 ^ 256"
    and keys: "distinct (map H (''ultrastable_current_supply'' # ''adjustment_history_count''
                 # historyKeys (historyCount H (ledger m))))"
  shows "historyCount H (ledger (snd (ApplySupplyAdjustment H m a t))) = historyCount H (ledger m) + 1"
proof -
  have neq: "H ''adjustment_history_count'' \<noteq> H ''ultrastable_current_supply''"
    using keys by auto
  have k: "distinct (map H (''adjustment_history_count'' # historyKeys (historyCount H (ledger m))))"
    using keys by simp
  have step: "historyCount H (ledger (updateAdjustmentHistory H m1 a)) = historyCount H (ledger m) + 1"
    if e1: "stateErr (blockchain m1) = None" and c1: "historyCount H (ledger m1) = historyCount H (ledger m)"
    for m1 :: "'h UltraStableManager"
  proof -
    have "GetState (ledger (updateAdjustmentHistory H m1 a)) UltraStableTokenSystemAddress
            (H ''adjustment_history_count'') = BytesToHash_Bytes (historyCount H (ledger m1) + 1)"
      by (rule uah_count [OF e1]) (use k c1 in simp)
    then have "historyCount H (ledger (updateAdjustmentHistory H m1 a))
        = SetBytes (BytesToHash_Bytes (historyCount H (ledger m) + 1))"
      using c1 by (simp add: historyCount_def [of H "ledger (updateAdjustmentHistory H m1 a)"])
    then show ?thesis
      using cnt historyCount_nonneg [of H "ledger m"] by (simp add: SetBytes_BytesToHash)
  qed
  show ?thesis
  proof (cases "Type a")
    case None_adj
    with kind show ?thesis by simp
  next
    case Expansion
    show ?thesis
      unfolding apply_expansion_eq [OF Expansion state feas nov]
      using step [of "withState m (SetState (SubBalance (ledger m) t (fst (FromBig (ValueTokens a))))
        UltraStableTokenSystemAddress (H ''ultrastable_current_supply'')
        (BytesToHash_Bytes (currentSupply H (ledger m) + Amount a)))"] state neq
      by (simp add: historyCount_supply_write)
  next
    case Contraction
    show ?thesis
      unfolding apply_contraction_eq [OF Contraction state feas nov]
      using step [of "withState m (SetState (AddBalance (ledger m) t (fst (FromBig (ValueTokens a))))
        UltraStableTokenSystemAddress (H ''ultrastable_current_supply'')
        (BytesToHash_Bytes (currentSupply H (ledger m) - Amount a)))"] state neq
      by (simp add: historyCount_supply_write)
  qed
qed

lemma apply_frame:
  assumes ks: "k \<notin> H ` set (''ultrastable_current_supply'' # ''adjustment_history_count''
                 # historyKeys (historyCount H (ledger m)))"
    and neq: "H ''adjustment_history_count'' \<noteq> H ''ultrastable_current_supply''"
  shows "GetState (ledger (snd (ApplySupplyAdjustment H m a t))) UltraStableTokenSystemAddress k
           = GetState (ledger m) UltraStableTokenSystemAddress k"
proof (cases "Type a \<noteq> None_adj \<and> stateErr (blockchain m) = None \<and> feasible H m a t
                 \<and> \<not> snd (FromBig (ValueTokens a))")
  case False
  then show ?thesis using apply_not_applied_eq [of a m H t] by simp
next
  case True
  then have kind: "Type a \<noteq> None_adj" and state: "stateErr (blockchain m) = None"
    and feas: "feasible H m a t" and nov: "\<not> snd (FromBig (ValueTokens a))" by simp_all
  have ksup: "k \<noteq> H ''ultrastable_current_supply''" using ks by auto
  have k': "k \<notin> H ` set (''adjustment_history_count'' # historyKeys (historyCount H (ledger m)))"
    using ks by auto
  show ?thesis
  proof (cases "Type a")
    case None_adj
    with kind show ?thesis by simp
  next
    case Expansion
    let ?m1 = "withState m (SetState (SubBalance (ledger m) t (fst (FromBig (ValueTokens a))))
        UltraStableTokenSystemAddress (H ''ultrastable_current_supply'')
        (BytesToHash_Bytes (currentSupply H (ledger m) + Amount a)))"
    have c1: "historyCount H (ledger ?m1) = historyCount H (ledger m)"
      using neq by (simp add: historyCount_supply_write)
    have "GetState (ledger (updateAdjustmentHistory H ?m1 a)) UltraStableTokenSystemAddress k
            = GetState (ledger ?m1) UltraStableTokenSystemAddress k"
      by (rule uah_other) (use k' c1 in simp)
    also have "\<dots> = GetState (ledger m) UltraStableTokenSystemAddress k"
      using ksup by (simp add: GetState_def SetState_def SubBalance_def)
    finally show ?thesis
      unfolding apply_expansion_eq [OF Expansion state feas nov] by simp
  next
    case Contraction
    let ?m1 = "withState m (SetState (AddBalance (ledger m) t (fst (FromBig (ValueTokens a))))
        UltraStableTokenSystemAddress (H ''ultrastable_current_supply'')
        (BytesToHash_Bytes (currentSupply H (ledger m) - Amount a)))"
    have c1: "historyCount H (ledger ?m1) = historyCount H (ledger m)"
      using neq by (simp add: historyCount_supply_write)
    have "GetState (ledger (updateAdjustmentHistory H ?m1 a)) UltraStableTokenSystemAddress k
            = GetState (ledger ?m1) UltraStableTokenSystemAddress k"
      by (rule uah_other) (use k' c1 in simp)
    also have "\<dots> = GetState (ledger m) UltraStableTokenSystemAddress k"
      using ksup by (simp add: GetState_def SetState_def AddBalance_def)
    finally show ?thesis
      unfolding apply_contraction_eq [OF Contraction state feas nov] by simp
  qed
qed

subsection \<open>Sequences of calls\<close>

lemma applyAll_stateErr [simp]:
  "stateErr (blockchain (applyAll H m t adjs)) = stateErr (blockchain m)"
  by (induction adjs arbitrary: m) simp_all

lemma applyAll_frame:
  assumes "allApplied H m t adjs"
    and "k \<notin> H ` set (journalKeys (historyCount H (ledger m)) (length adjs))"
    and "distinct (map H (journalKeys (historyCount H (ledger m)) (length adjs)))"
    and "historyCount H (ledger m) + int (length adjs) < 2 ^ 256"
  shows "GetState (ledger (applyAll H m t adjs)) UltraStableTokenSystemAddress k
           = GetState (ledger m) UltraStableTokenSystemAddress k"
  using assms
proof (induction adjs arbitrary: m)
  case Nil
  then show ?case by simp
next
  case (Cons a adjs)
  let ?n = "historyCount H (ledger m)"
  let ?m' = "snd (ApplySupplyAdjustment H m a t)"
  from Cons.prems(1) have kind: "Type a \<noteq> None_adj" and state: "stateErr (blockchain m) = None"
    and feas: "feasible H m a t" and nov: "\<not> snd (FromBig (ValueTokens a))"
    and rest: "allApplied H ?m' t adjs" by simp_all
  have d: "distinct (map H (journalKeys ?n (Suc (length adjs))))" using Cons.prems(3) by simp
  note sp = journalKeys_split [OF d]
  have cnt: "?n + 1 < 2 ^ 256" using Cons.prems(4) by simp
  have c': "historyCount H (ledger ?m') = ?n + 1"
    by (rule apply_applied_count [OF kind state feas nov cnt sp(1)])
  have neq: "H ''adjustment_history_count'' \<noteq> H ''ultrastable_current_supply''"
    using sp(1) by auto
  have kn: "k \<notin> H ` set (journalKeys ?n (Suc (length adjs)))" using Cons.prems(2) by simp
  have k1: "k \<notin> H ` set (''ultrastable_current_supply'' # ''adjustment_history_count''
                 # historyKeys ?n)"
    using kn unfolding journalKeys_Suc by auto
  have k2: "k \<notin> H ` set (journalKeys (historyCount H (ledger ?m')) (length adjs))"
    using kn unfolding c' journalKeys_Suc journalKeys_def [of "?n + 1" "length adjs"] by auto
  have "GetState (ledger (applyAll H ?m' t adjs)) UltraStableTokenSystemAddress k
          = GetState (ledger ?m') UltraStableTokenSystemAddress k"
    using Cons.IH [OF rest k2] sp(2) Cons.prems(4) unfolding c' by simp
  also have "\<dots> = GetState (ledger m) UltraStableTokenSystemAddress k"
    by (rule apply_frame [OF k1 neq])
  finally show ?case by simp
qed

lemma applyAll_journal:
  assumes "allApplied H m t adjs"
    and "distinct (map H (journalKeys (historyCount H (ledger m)) (length adjs)))"
    and "historyCount H (ledger m) + int (length adjs) < 2 ^ 256"
  shows "historyCount H (ledger (applyAll H m t adjs))
           = historyCount H (ledger m) + int (length adjs) \<and>
         (\<forall>i < length adjs.
            fetchEntry H (ledger (applyAll H m t adjs)) (historyCount H (ledger m) + int i)
              = stored (adjs ! i))"
  using assms
proof (induction adjs arbitrary: m)
  case Nil
  then show ?case by simp
next
  case (Cons a adjs)
  let ?n = "historyCount H (ledger m)"
  let ?m' = "snd (ApplySupplyAdjustment H m a t)"
  from Cons.prems(1) have kind: "Type a \<noteq> None_adj" and state: "stateErr (blockchain m) = None"
    and feas: "feasible H m a t" and nov: "\<not> snd (FromBig (ValueTokens a))"
    and rest: "allApplied H ?m' t adjs" by simp_all
  have d: "distinct (map H (journalKeys ?n (Suc (length adjs))))" using Cons.prems(2) by simp
  note sp = journalKeys_split [OF d]
  have cnt: "?n + 1 < 2 ^ 256" using Cons.prems(3) by simp
  have c': "historyCount H (ledger ?m') = ?n + 1"
    by (rule apply_applied_count [OF kind state feas nov cnt sp(1)])
  have d': "distinct (map H (journalKeys (historyCount H (ledger ?m')) (length adjs)))"
    using sp(2) unfolding c' .
  have b': "historyCount H (ledger ?m') + int (length adjs) < 2 ^ 256"
    using Cons.prems(3) unfolding c' by simp
  note ih = Cons.IH [OF rest d' b']
  have first: "fetchEntry H (ledger ?m') ?n = stored a"
    by (rule apply_applied_fetch [OF kind state feas nov sp(1)])
  have keep: "fetchEntry H (ledger (applyAll H ?m' t adjs)) ?n = fetchEntry H (ledger ?m') ?n"
  proof (rule fetchEntry_cong, rule ballI)
    fix k assume "k \<in> H ` set (historyKeys ?n)"
    then have "k \<notin> H ` set (journalKeys (historyCount H (ledger ?m')) (length adjs))"
      using sp(3) unfolding c' by auto
    then show "GetState (ledger (applyAll H ?m' t adjs)) UltraStableTokenSystemAddress k
                 = GetState (ledger ?m') UltraStableTokenSystemAddress k"
      by (rule applyAll_frame [OF rest _ d' b'])
  qed
  have count: "historyCount H (ledger (applyAll H m t (a # adjs))) = ?n + int (length (a # adjs))"
    using ih c' by simp
  have recs: "fetchEntry H (ledger (applyAll H m t (a # adjs))) (?n + int i) = stored ((a # adjs) ! i)"
    if "i < length (a # adjs)" for i
  proof (cases i)
    case 0
    then show ?thesis using keep first by simp
  next
    case (Suc j)
    with that have "j < length adjs" by simp
    with ih have "fetchEntry H (ledger (applyAll H ?m' t adjs))
                    (historyCount H (ledger ?m') + int j) = stored (adjs ! j)" by simp
    then show ?thesis using Suc c' by (simp add: ac_simps)
  qed
  show ?case using count recs by blast
qed

subsection \<open>\<open>ProcessUpdate\<close> and the history query\<close>

lemma ProcessUpdate_eq:
  assumes "stateErr (blockchain m) = None"
  shows "ProcessUpdate H now now' m =
    (withState
       (m\<lparr>updateFeed := updateFeed m @
           [CalculateSupplyAdjustment (proprietary m) (currentSupply H (ledger m))
              (if SetBytes (GetState (ledger m) O2ULTokenSystemAddress (H ''value_token_price'')) = 0
               then 1000000000000000000
               else SetBytes (GetState (ledger m) O2ULTokenSystemAddress (H ''value_token_price'')))
              (uint8 (Uint64 (SetBytes (GetState (ledger m) UltraStableTokenSystemAddress
                 (H ''market_volatility'')))))]\<rparr>)
       (SetState (SetState (SetState (ledger m) UltraStableTokenSystemAddress
           (H ''ultrastable_target_value'') (BytesToHash_Bytes (GetTargetStableValue (proprietary m))))
           UltraStableTokenSystemAddress
           (H ''ultrastable_current_value'') (BytesToHash_Bytes (GetCurrentStableValue (proprietary m))))
           UltraStableTokenSystemAddress
           (H ''ultrastable_last_update_time'') (BytesToHash_Bytes (Unix now))))
     \<lparr>lastUpdateTime := now'\<rparr>"
  using assms
  by (simp add: ProcessUpdate_def State_def Let_def currentSupply_def ledger_def withState_def)

lemma fetchEntries_eq:
  "fetchEntries H s i count results = results @ map (fetchEntry H s) [i..count - 1]"
proof (induction H s i count results rule: fetchEntries.induct)
  case (1 H s i count results)
  show ?case
  proof (cases "i < count")
    case True
    then have "[i..count - 1] = i # [i + 1..count - 1]"
      by (simp add: upto_rec1)
    with True "1.IH" show ?thesis
      by (simp add: fetchEntries.simps [of H s i count results])
  next
    case False
    then show ?thesis
      by (simp add: fetchEntries.simps [of H s i count results])
  qed
qed

lemma GetAdjustmentHistory_eq:
  assumes state: "stateErr (blockchain m) = None"
    and n: "0 \<le> maxEntries" "maxEntries < 2 ^ 63"
    and c: "historyCount H (ledger m) < 2 ^ 63"
  shows "GetAdjustmentHistory H m maxEntries =
           map (fetchEntry H (ledger m))
             [max 0 (historyCount H (ledger m) - maxEntries)..historyCount H (ledger m) - 1]"
proof -
  let ?c = "historyCount H (ledger m)"
  have c0: "0 \<le> ?c" by (rule historyCount_nonneg)
  have i1: "Int64 ?c = ?c" using c0 c by (simp add: Int64_id)
  have i2: "Int64 maxEntries = maxEntries" using n by (simp add: Int64_id)
  have i3: "Int64 (?c - maxEntries) = ?c - maxEntries" using c0 c n by (simp add: Int64_id)
  have "GetAdjustmentHistory H m maxEntries =
          fetchEntries H (ledger m) (if ?c - maxEntries < 0 then 0 else ?c - maxEntries) ?c []"
    using state i1 i2 i3
    by (simp add: GetAdjustmentHistory_def State_def Let_def historyCount_def ledger_def)
  also have "(if ?c - maxEntries < 0 then 0 else ?c - maxEntries) = max 0 (?c - maxEntries)"
    by simp
  finally show ?thesis by (simp add: fetchEntries_eq)
qed

subsection \<open>Facts about the sample chains\<close>

lemmas sample_defs = sample_manager_def sample_state_def sample_treasury_def
  sample_proprietary_def sample_possible_def

lemmas observer_defs = ledger_def currentSupply_def minimumSupply_def historyCount_def
  treasuryBalance_def feasible_def historyKeys_def String_def digit_char_def
  GetState_def SetState_def GetBalance_def AddBalance_def SubBalance_def
  SetBytes_def ToBig_def UltraStableTokenSystemAddress_def

lemma sample_applied:
  "allApplied (\<lambda>key. key) sample_manager sample_treasury [sample_expansion, sample_contraction]"
  by (simp add: sample_defs sample_expansion_def sample_contraction_def
        ledger_def minimumSupply_def treasuryBalance_def feasible_def
        GetState_def SetState_def GetBalance_def AddBalance_def SubBalance_def
        SetBytes_def ToBig_def UltraStableTokenSystemAddress_def apply_defs
        String_def digit_char_def digits.simps)

lemma sample_count: "historyCount (\<lambda>key. key) (ledger sample_manager) = 0"
  by (simp add: sample_defs observer_defs)

lemma journal_manager_facts:
  "stateErr (blockchain journal_manager) = None"
  "historyCount (\<lambda>key. key) (ledger journal_manager) = 2"
  "fetchEntry (\<lambda>key. key) (ledger journal_manager) 0 = stored sample_expansion"
  "fetchEntry (\<lambda>key. key) (ledger journal_manager) 1 = stored sample_contraction"
proof -
  show "stateErr (blockchain journal_manager) = None"
    by (simp add: journal_manager_def) (simp add: sample_manager_def)
  have d: "distinct (map (\<lambda>key. key)
             (journalKeys (historyCount (\<lambda>key. key) (ledger sample_manager))
                (length [sample_expansion, sample_contraction])))"
    by (rule journalKeys_distinct_map) (simp_all add: sample_count)
  have b: "historyCount (\<lambda>key. key) (ledger sample_manager)
             + int (length [sample_expansion, sample_contraction]) < 2 ^ 256"
    by (simp add: sample_count)
  note j = applyAll_journal [OF sample_applied d b, folded journal_manager_def]
  from j show "historyCount (\<lambda>key. key) (ledger journal_manager) = 2"
    by (simp add: sample_count)
  from j have r: "i < 2 \<Longrightarrow> fetchEntry (\<lambda>key. key) (ledger journal_manager) (int i)
                 = stored ([sample_expansion, sample_contraction] ! i)" for i
    by (simp add: sample_count)
  from r [of 0] show "fetchEntry (\<lambda>key. key) (ledger journal_manager) 0 = stored sample_expansion"
    by simp
  from r [of 1] show "fetchEntry (\<lambda>key. key) (ledger journal_manager) 1 = stored sample_contraction"
    by simp
qed

subsection \<open>The slots of go-ethereum's key hashing\<close>

text \<open>
  None of the key names of the source is a string of hex digits, so \<open>common_HexToHash\<close>
  keeps only what it decodes before the first character that is not one. The names that
  start with \<open>ultrastable_\<close> decode to nothing and share slot \<open>0\<close>. A name that starts
  with \<open>adjustment_\<close> decodes to the one byte \<open>0xad\<close> (173) when its length is even, and
  to \<open>0x0a\<close> (10) when its length is odd and a \<open>0\<close> is put in front of it. So the
  history count lives in slot 173, and the six fields of every record share the slots 10
  and 173 between them.
\<close>

lemmas hash_defs = common_HexToHash_def FromHex_def has0xPrefix_def fromHexChar_def BytesToHash_def

lemma hash_fixed_keys:
  "common_HexToHash ''ultrastable_current_supply'' = 0"
  "common_HexToHash ''ultrastable_minimum_supply'' = 0"
  "common_HexToHash ''ultrastable_target_value'' = 0"
  "common_HexToHash ''ultrastable_current_value'' = 0"
  "common_HexToHash ''ultrastable_last_update_time'' = 0"
  "common_HexToHash ''adjustment_history_count'' = 173"
  by (simp_all add: common_HexToHash_def FromHex_def has0xPrefix_def fromHexChar_def
      BytesToHash_def)

lemma hash_adjustment:
  "common_HexToHash (''adjustment_'' @ s) = (if even (length s) then 10 else 173)"
  by (auto simp: common_HexToHash_def FromHex_def has0xPrefix_def fromHexChar_def
      BytesToHash_def Let_def mod_Suc even_iff_mod_2_eq_zero)

lemma hash_historyKeys:
  "map common_HexToHash (historyKeys i) =
     (if even (length (String i)) then [173, 173, 173, 10, 173, 10]
      else [10, 10, 10, 173, 10, 173])"
  unfolding historyKeys_simp list.map hash_adjustment by simp

lemma hash_adj_cons:
  "common_HexToHash (CHR ''a'' # CHR ''d'' # CHR ''j'' # r) = (if odd (length r) then 173 else 10)"
  by (cases r)
     (auto simp: common_HexToHash_def FromHex_def has0xPrefix_def fromHexChar_def
        BytesToHash_def Let_def mod_Suc even_iff_mod_2_eq_zero)

lemma hash_historyKeys_nth:
  assumes "i < 6"
  shows "common_HexToHash (historyKeys n ! i) =
           (if even (length (String n)) then [173, 173, 173, 10, 173, 10]
            else [10, 10, 10, 173, 10, 173]) ! i"
proof -
  have "length (historyKeys n) = 6" by (simp add: historyKeys_def)
  with assms have "common_HexToHash (historyKeys n ! i) = map common_HexToHash (historyKeys n) ! i"
    by simp
  then show ?thesis by (simp only: hash_historyKeys)
qed

lemma slot0_not_journal:
  "(0::uint256) \<notin> common_HexToHash ` set (''adjustment_history_count'' # historyKeys n)"
proof -
  have "common_HexToHash ` set (historyKeys n) = set (map common_HexToHash (historyKeys n))"
    by simp
  then show ?thesis
    unfolding hash_historyKeys by (simp add: hash_fixed_keys)
qed

lemma hash_new_supply_timestamp:
  "common_HexToHash (historyKeys i ! 4) \<noteq> common_HexToHash (historyKeys i ! 5)"
proof -
  have k4: "historyKeys i ! 4 = ''adjustment_'' @ (String i @ ''_new_supply'')"
    and k5: "historyKeys i ! 5 = ''adjustment_'' @ (String i @ ''_timestamp'')"
    by (simp_all add: historyKeys_simp)
  show ?thesis unfolding k4 k5 hash_adjustment by simp
qed

lemma chain_currentSupply: "currentSupply common_HexToHash s = SetBytes (GetState s UltraStableTokenSystemAddress 0)"
  by (simp add: currentSupply_def hash_fixed_keys)

lemma chain_historyCount:
  "historyCount common_HexToHash s = SetBytes (GetState s UltraStableTokenSystemAddress 173)"
  by (simp add: historyCount_def hash_fixed_keys)

lemma chain_minimumSupply:
  "minimumSupply common_HexToHash s = currentSupply common_HexToHash s"
  by (simp add: minimumSupply_def currentSupply_def hash_fixed_keys)

lemma chain_uah_supply:
  "GetState (ledger (updateAdjustmentHistory common_HexToHash m a)) UltraStableTokenSystemAddress 0
     = GetState (ledger m) UltraStableTokenSystemAddress 0"
  by (rule uah_other) (rule slot0_not_journal)

lemma chain_uah_new_supply:
  assumes "stateErr (blockchain m) = None"
  shows "NewSupply (fetchEntry common_HexToHash
            (ledger (updateAdjustmentHistory common_HexToHash m a))
            (historyCount common_HexToHash (ledger m)))
           = SetBytes (BytesToHash_Bytes (NewSupply a))"
  unfolding fetchEntry_keys uah_storage [OF assms]
  using hash_new_supply_timestamp [of "historyCount common_HexToHash (ledger m)"]
  by simp

lemma chain_uah_slots:
  assumes e: "stateErr (blockchain m) = None"
  shows "GetState (ledger (updateAdjustmentHistory common_HexToHash m a))
           UltraStableTokenSystemAddress 173
           = (if even (length (String (historyCount common_HexToHash (ledger m))))
              then BytesToHash_Bytes (NewSupply a)
              else BytesToHash_Bytes (Unix (Timestamp a)))"
    and "GetState (ledger (updateAdjustmentHistory common_HexToHash m a))
           UltraStableTokenSystemAddress 10
           = (if even (length (String (historyCount common_HexToHash (ledger m))))
              then BytesToHash_Bytes (Unix (Timestamp a))
              else BytesToHash_Bytes (NewSupply a))"
  unfolding GetState_def uah_storage [OF e]
  by (simp_all add: hash_historyKeys_nth hash_fixed_keys)

lemma chain_fetchEntry_amount:
  "Amount (fetchEntry common_HexToHash s i)
     = SetBytes (GetState s UltraStableTokenSystemAddress (if even (length (String i)) then 173 else 10))"
  using hash_historyKeys_nth [of 1 i]
  by (simp add: fetchEntry_keys GetState_def)


lemma apply_applied_feed:
  assumes "Type a \<noteq> None_adj" "stateErr (blockchain m) = None" "feasible H m a t"
    "\<not> snd (FromBig (ValueTokens a))"
  shows "fst (ApplySupplyAdjustment H m a t) = None"
    and "adjustFeed (snd (ApplySupplyAdjustment H m a t)) = adjustFeed m @ [a]"
    and "proprietary (snd (ApplySupplyAdjustment H m a t)) = proprietary m"
  using assms
  by (cases "Type a";
      simp add: apply_expansion_eq apply_contraction_eq updateAdjustmentHistory_def
        withState_def Let_def split: sum.splits)+

lemma apply_expansion_on_chain:
  assumes kind: "Type a = Expansion"
    and state: "stateErr (blockchain m) = None"
    and feas: "feasible common_HexToHash m a t"
    and vt: "0 \<le> ValueTokens a" "ValueTokens a \<le> treasuryBalance (ledger m) t"
    and amt: "0 \<le> Amount a" "currentSupply common_HexToHash (ledger m) + Amount a < 2 ^ 256"
  shows "fst (ApplySupplyAdjustment common_HexToHash m a t) = None \<and>
         currentSupply common_HexToHash (ledger (snd (ApplySupplyAdjustment common_HexToHash m a t)))
           = currentSupply common_HexToHash (ledger m) + Amount a \<and>
         treasuryBalance (ledger (snd (ApplySupplyAdjustment common_HexToHash m a t))) t
           = treasuryBalance (ledger m) t - ValueTokens a"
proof -
  let ?H = common_HexToHash
  let ?UST = UltraStableTokenSystemAddress
  let ?s1 = "SetState (SubBalance (ledger m) t (fst (FromBig (ValueTokens a)))) ?UST
               (?H ''ultrastable_current_supply'')
               (BytesToHash_Bytes (currentSupply ?H (ledger m) + Amount a))"
  let ?m1 = "withState m ?s1"
  let ?m2 = "updateAdjustmentHistory ?H ?m1 a"
  have nov: "\<not> snd (FromBig (ValueTokens a))"
    using vt by (simp add: treasuryBalance_def ToBig_def no_overflow_le_balance)
  have eq: "ApplySupplyAdjustment ?H m a t = (None, ?m2\<lparr>adjustFeed := adjustFeed m @ [a]\<rparr>)"
    using apply_expansion_eq [OF kind state feas nov] .
  have hsupply: "currentSupply ?H (ledger ?m2) = currentSupply ?H (ledger m) + Amount a"
  proof -
    have "GetState (ledger ?m2) ?UST 0 = GetState (ledger ?m1) ?UST 0"
      by (rule chain_uah_supply)
    also have "\<dots> = BytesToHash_Bytes (currentSupply ?H (ledger m) + Amount a)"
      by (simp add: GetState_def SetState_def hash_fixed_keys)
    finally have "currentSupply ?H (ledger ?m2)
        = SetBytes (BytesToHash_Bytes (currentSupply ?H (ledger m) + Amount a))"
      by (simp add: chain_currentSupply [of "ledger ?m2"])
    then show ?thesis
      using amt currentSupply_nonneg [of ?H "ledger m"] by (simp add: SetBytes_BytesToHash)
  qed
  have bal: "treasuryBalance (ledger ?m2) t = treasuryBalance (ledger m) t - ValueTokens a"
  proof -
    have "balances (ledger ?m2) = balances (ledger ?m1)" by (rule uah_balances)
    then show ?thesis
      using vt by (simp add: treasuryBalance_def ToBig_def GetBalance_def SetState_def
          SubBalance_def uint_sub_FromBig)
  qed
  show ?thesis unfolding eq using hsupply bal by simp
qed

lemma chain_apply_slots:
  assumes kind: "Type a \<noteq> None_adj"
    and state: "stateErr (blockchain m) = None"
    and feas: "feasible common_HexToHash m a t"
    and nov: "\<not> snd (FromBig (ValueTokens a))"
  shows "GetState (ledger (snd (ApplySupplyAdjustment common_HexToHash m a t)))
           UltraStableTokenSystemAddress 173
           = (if even (length (String (historyCount common_HexToHash (ledger m))))
              then BytesToHash_Bytes (NewSupply a)
              else BytesToHash_Bytes (Unix (Timestamp a)))"
    and "GetState (ledger (snd (ApplySupplyAdjustment common_HexToHash m a t)))
           UltraStableTokenSystemAddress 10
           = (if even (length (String (historyCount common_HexToHash (ledger m))))
              then BytesToHash_Bytes (Unix (Timestamp a))
              else BytesToHash_Bytes (NewSupply a))"
proof -
  let ?H = common_HexToHash
  let ?goal = "\<lambda>m'. GetState (ledger m') UltraStableTokenSystemAddress 173
           = (if even (length (String (historyCount ?H (ledger m))))
              then BytesToHash_Bytes (NewSupply a)
              else BytesToHash_Bytes (Unix (Timestamp a))) \<and>
         GetState (ledger m') UltraStableTokenSystemAddress 10
           = (if even (length (String (historyCount ?H (ledger m))))
              then BytesToHash_Bytes (Unix (Timestamp a))
              else BytesToHash_Bytes (NewSupply a))"
  have neq: "?H ''adjustment_history_count'' \<noteq> ?H ''ultrastable_current_supply''"
    by (simp add: hash_fixed_keys)
  have step: "?goal ((updateAdjustmentHistory ?H m1 a)\<lparr>adjustFeed := f\<rparr>)"
    if e1: "stateErr (blockchain m1) = None"
      and c1: "historyCount ?H (ledger m1) = historyCount ?H (ledger m)"
    for m1 :: "uint256 UltraStableManager" and f
    using chain_uah_slots [OF e1, of a] by (simp add: c1)
  have "?goal (snd (ApplySupplyAdjustment ?H m a t))"
  proof (cases "Type a")
    case None_adj
    with kind show ?thesis by simp
  next
    case Expansion
    show ?thesis
      unfolding apply_expansion_eq [OF Expansion state feas nov] snd_conv
      by (rule step) (use state neq in \<open>simp_all add: historyCount_supply_write\<close>)
  next
    case Contraction
    show ?thesis
      unfolding apply_contraction_eq [OF Contraction state feas nov] snd_conv
      by (rule step) (use state neq in \<open>simp_all add: historyCount_supply_write\<close>)
  qed
  then show "GetState (ledger (snd (ApplySupplyAdjustment ?H m a t)))
           UltraStableTokenSystemAddress 173
           = (if even (length (String (historyCount ?H (ledger m))))
              then BytesToHash_Bytes (NewSupply a)
              else BytesToHash_Bytes (Unix (Timestamp a)))"
    and "GetState (ledger (snd (ApplySupplyAdjustment ?H m a t)))
           UltraStableTokenSystemAddress 10
           = (if even (length (String (historyCount ?H (ledger m))))
              then BytesToHash_Bytes (Unix (Timestamp a))
              else BytesToHash_Bytes (NewSupply a))"
    by simp_all
qed

lemma String_lengths:
  "length (String 0) = 1" "length (String 1700000000) = 10"
  by (simp_all add: String_def digits.simps)

lemma genesis_chain_ledger:
  "ledger genesis_chain_manager =
     \<lparr>balances = (\<lambda>a. 0)(sample_treasury := 1000000000000000000000000),
      storage = (\<lambda>a k. 0)(UltraStableTokenSystemAddress :=
                  (\<lambda>k. 0)(0 := 32421, 173 := 0, 12 := 25))\<rparr>"
  by (simp add: genesis_chain_manager_def ledger_def sample_config_def SetupUltraStableToken_def
      hash_defs bytes_of_string_def address_Bytes_def FromBig_def Let_def
      SetState_def AddBalance_def BytesToHash_Bytes_def Unix_def Int64_def sample_treasury_def
      UltraStableTokenSystemAddress_def fun_eq_iff)

lemmas chain_defs = chain_manager_def chain_state_def low_chain_manager_def low_chain_state_def
  permissive_chain_manager_def sample_treasury_def sample_proprietary_def sample_possible_def
  hash_fixed_keys hash_adj_cons

lemmas chain_observer_defs = ledger_def currentSupply_def minimumSupply_def historyCount_def
  treasuryBalance_def feasible_def
  GetState_def SetState_def GetBalance_def AddBalance_def SubBalance_def
  SetBytes_def ToBig_def UltraStableTokenSystemAddress_def

subsection \<open>The claims\<close>

text \<open>
  C1 (amended). A \<open>Contraction\<close> on an accessible ledger, with the slots of
  go-ethereum. When \<open>IsAdjustmentPossible\<close> rejects the decision, the call returns
  \<open>nil\<close> and the manager, ledger included, is unchanged. When it accepts the decision,
  \<open>ValueTokens\<close> is not negative and does not carry the treasury balance past
  \<open>2 ^ 256\<close>, and \<open>Amount\<close> is between 0 and the stored supply, the call returns
  \<open>nil\<close>, the stored supply after the call is the supply before minus \<open>Amount\<close> and the
  treasury balance is the balance before plus \<open>ValueTokens\<close>. The answer of
  \<open>IsAdjustmentPossible\<close> is the only test: the source compares nothing with the
  minimum supply itself.
\<close>

theorem apply_contraction:
  assumes kind: "Type a = Contraction"
    and state: "stateErr (blockchain m) = None"
  shows "(\<not> feasible common_HexToHash m a t \<longrightarrow>
            ApplySupplyAdjustment common_HexToHash m a t = (None, m)) \<and>
         (feasible common_HexToHash m a t \<and>
          0 \<le> ValueTokens a \<and> treasuryBalance (ledger m) t + ValueTokens a < 2 ^ 256 \<and>
          0 \<le> Amount a \<and> Amount a \<le> currentSupply common_HexToHash (ledger m)
          \<longrightarrow>
          fst (ApplySupplyAdjustment common_HexToHash m a t) = None \<and>
          currentSupply common_HexToHash (ledger (snd (ApplySupplyAdjustment common_HexToHash m a t)))
            = currentSupply common_HexToHash (ledger m) - Amount a \<and>
          treasuryBalance (ledger (snd (ApplySupplyAdjustment common_HexToHash m a t))) t
            = treasuryBalance (ledger m) t + ValueTokens a)"
proof (rule conjI; rule impI)
  assume "\<not> feasible common_HexToHash m a t"
  then show "ApplySupplyAdjustment common_HexToHash m a t = (None, m)"
    using kind state by (simp add: apply_infeasible_eq)
next
  let ?H = common_HexToHash
  assume h: "feasible ?H m a t \<and>
          0 \<le> ValueTokens a \<and> treasuryBalance (ledger m) t + ValueTokens a < 2 ^ 256 \<and>
          0 \<le> Amount a \<and> Amount a \<le> currentSupply ?H (ledger m)"
  let ?UST = UltraStableTokenSystemAddress
  let ?s1 = "SetState (AddBalance (ledger m) t (fst (FromBig (ValueTokens a)))) ?UST
               (?H ''ultrastable_current_supply'')
               (BytesToHash_Bytes (currentSupply ?H (ledger m) - Amount a))"
  let ?m1 = "withState m ?s1"
  let ?m2 = "updateAdjustmentHistory ?H ?m1 a"
  from h have feas: "feasible ?H m a t"
    and vt: "0 \<le> ValueTokens a" "treasuryBalance (ledger m) t + ValueTokens a < 2 ^ 256"
    and amt: "0 \<le> Amount a" "Amount a \<le> currentSupply ?H (ledger m)"
    by simp_all
  have "0 \<le> treasuryBalance (ledger m) t" by (simp add: treasuryBalance_def ToBig_def)
  with vt have nov: "\<not> snd (FromBig (ValueTokens a))" by (simp add: FromBig_def)
  have eq: "ApplySupplyAdjustment ?H m a t = (None, ?m2\<lparr>adjustFeed := adjustFeed m @ [a]\<rparr>)"
    using apply_contraction_eq [OF kind state feas nov] .
  have hsupply: "currentSupply ?H (ledger ?m2) = currentSupply ?H (ledger m) - Amount a"
  proof -
    have "GetState (ledger ?m2) ?UST 0 = GetState (ledger ?m1) ?UST 0"
      by (rule chain_uah_supply)
    also have "\<dots> = BytesToHash_Bytes (currentSupply ?H (ledger m) - Amount a)"
      by (simp add: GetState_def SetState_def hash_fixed_keys)
    finally have "currentSupply ?H (ledger ?m2)
        = SetBytes (BytesToHash_Bytes (currentSupply ?H (ledger m) - Amount a))"
      by (simp add: chain_currentSupply [of "ledger ?m2"])
    moreover have "currentSupply ?H (ledger m) < 2 ^ 256"
      using uint_lt2p [of "GetState (ledger m) ?UST 0"]
      by (simp add: chain_currentSupply SetBytes_def)
    ultimately show ?thesis
      using amt by (simp add: SetBytes_BytesToHash)
  qed
  have bal: "treasuryBalance (ledger ?m2) t = treasuryBalance (ledger m) t + ValueTokens a"
  proof -
    have "balances (ledger ?m2) = balances (ledger ?m1)" by (rule uah_balances)
    then show ?thesis
      using vt by (simp add: treasuryBalance_def ToBig_def GetBalance_def SetState_def
          AddBalance_def uint_add_FromBig)
  qed
  show "fst (ApplySupplyAdjustment ?H m a t) = None \<and>
          currentSupply ?H (ledger (snd (ApplySupplyAdjustment ?H m a t)))
            = currentSupply ?H (ledger m) - Amount a \<and>
          treasuryBalance (ledger (snd (ApplySupplyAdjustment ?H m a t))) t
            = treasuryBalance (ledger m) t + ValueTokens a"
    unfolding eq using hsupply bal by simp
qed

theorem apply_contraction_witness:
  "Type sample_contraction = Contraction \<and>
   stateErr (blockchain permissive_chain_manager) = None \<and>
   feasible common_HexToHash permissive_chain_manager sample_contraction sample_treasury \<and>
   currentSupply common_HexToHash (ledger permissive_chain_manager) = 1000000000000000000000000 \<and>
   treasuryBalance (ledger permissive_chain_manager) sample_treasury = 500000000000000000000 \<and>
   fst (ApplySupplyAdjustment common_HexToHash permissive_chain_manager sample_contraction
          sample_treasury) = None \<and>
   currentSupply common_HexToHash
     (ledger (snd (ApplySupplyAdjustment common_HexToHash permissive_chain_manager
                     sample_contraction sample_treasury)))
     = 990000000000000000000000 \<and>
   treasuryBalance
     (ledger (snd (ApplySupplyAdjustment common_HexToHash permissive_chain_manager
                     sample_contraction sample_treasury)))
     sample_treasury = 550000000000000000000 \<and>
   stateErr (blockchain chain_manager) = None \<and>
   \<not> feasible common_HexToHash chain_manager sample_contraction sample_treasury \<and>
   ApplySupplyAdjustment common_HexToHash chain_manager sample_contraction sample_treasury
     = (None, chain_manager)"
  using apply_contraction [where a = sample_contraction and m = permissive_chain_manager
      and t = sample_treasury]
    apply_contraction [where a = sample_contraction and m = chain_manager
      and t = sample_treasury]
  by (simp add: chain_defs sample_contraction_def chain_observer_defs)

text \<open>
  The claim as stated fails: the source does not check the minimum supply again when it
  applies a decision, and it has no \<open>SupplyUnderflow\<close> error. On the chain below the word
  read as the supply and as the minimum supply is \<open>2 * 10^18\<close> (both names land in slot
  0). The sample feasibility check looks at the \<open>NewSupply\<close> field, which says
  \<open>9 * 10^18\<close>, and accepts the \<open>Contraction\<close> by \<open>10^18\<close>; the call returns \<open>nil\<close>,
  credits the treasury, publishes the decision and leaves the supply at \<open>10^18\<close>, below
  the minimum.
\<close>

theorem contraction_below_minimum_counterexample:
  "Type stale_contraction = Contraction \<and>
   currentSupply common_HexToHash (ledger low_chain_manager) = 2000000000000000000 \<and>
   minimumSupply common_HexToHash (ledger low_chain_manager) = 2000000000000000000 \<and>
   currentSupply common_HexToHash (ledger low_chain_manager) - Amount stale_contraction
     < minimumSupply common_HexToHash (ledger low_chain_manager) \<and>
   fst (ApplySupplyAdjustment common_HexToHash low_chain_manager stale_contraction sample_treasury)
     = None \<and>
   treasuryBalance (ledger low_chain_manager) sample_treasury = 500000000000000000000 \<and>
   treasuryBalance
     (ledger (snd (ApplySupplyAdjustment common_HexToHash low_chain_manager stale_contraction
                     sample_treasury)))
     sample_treasury = 501000000000000000000 \<and>
   currentSupply common_HexToHash
     (ledger (snd (ApplySupplyAdjustment common_HexToHash low_chain_manager stale_contraction
                     sample_treasury)))
     = 1000000000000000000 \<and>
   adjustFeed (snd (ApplySupplyAdjustment common_HexToHash low_chain_manager stale_contraction
                      sample_treasury))
     = [stale_contraction]"
  by (simp add: chain_defs stale_contraction_def chain_observer_defs apply_defs Unix_def
      String_def digit_char_def digits.simps)

text \<open>
  C2. The spec's scenario with the slots of go-ethereum: supply \<open>1,000,000 * 10^18\<close>,
  treasury balance \<open>500 * 10^18\<close>, history count 0, and an \<open>Expansion\<close> by
  \<open>10,000 * 10^18\<close> for \<open>50 * 10^18\<close> value tokens, stamped 1700000000 seconds after the
  epoch. The call returns \<open>nil\<close>; the supply after it is \<open>1,010,000 * 10^18\<close> and the
  treasury balance \<open>450 * 10^18\<close>, but the history count is 1700000000 and not 1: the
  names \<open>adjustment_history_count\<close> and \<open>adjustment_0_timestamp\<close> land in the same slot
  173, and \<open>updateAdjustmentHistory\<close> writes the time stamp after the count.
\<close>

theorem expansion_scenario_on_chain:
  "Type sample_expansion = Expansion \<and>
   feasible common_HexToHash chain_manager sample_expansion sample_treasury \<and>
   currentSupply common_HexToHash (ledger chain_manager) = 1000000000000000000000000 \<and>
   treasuryBalance (ledger chain_manager) sample_treasury = 500000000000000000000 \<and>
   historyCount common_HexToHash (ledger chain_manager) = 0 \<and>
   fst (ApplySupplyAdjustment common_HexToHash chain_manager sample_expansion sample_treasury)
     = None \<and>
   currentSupply common_HexToHash
     (ledger (snd (ApplySupplyAdjustment common_HexToHash chain_manager sample_expansion
                     sample_treasury)))
     = 1010000000000000000000000 \<and>
   treasuryBalance
     (ledger (snd (ApplySupplyAdjustment common_HexToHash chain_manager sample_expansion
                     sample_treasury)))
     sample_treasury = 450000000000000000000 \<and>
   historyCount common_HexToHash
     (ledger (snd (ApplySupplyAdjustment common_HexToHash chain_manager sample_expansion
                     sample_treasury)))
     = 1700000000"
  by (simp add: chain_defs sample_expansion_def chain_observer_defs apply_defs Unix_def
      String_def digit_char_def digits.simps)

text \<open>
  C3 (amended). A decision that is not \<open>None\<close> and that \<open>ApplySupplyAdjustment\<close>
  applies (the ledger is accessible, the feasibility check accepts it, \<open>ValueTokens\<close>
  fits 256 bits), with the slots of go-ethereum: the \<open>NewSupply\<close> that the loop body of
  \<open>GetAdjustmentHistory\<close> reads after the call for the index that was the history count
  before the call is the \<open>NewSupply\<close> field of the incoming decision (a value between 0
  and \<open>2 ^ 256 - 1\<close>). The source stores \<open>adjustment.NewSupply\<close>; it does not read the
  supply back from the ledger.
\<close>

theorem history_records_claimed_supply:
  assumes kind: "Type a \<noteq> None_adj"
    and state: "stateErr (blockchain m) = None"
    and feas: "feasible common_HexToHash m a t"
    and nov: "\<bar>ValueTokens a\<bar> < 2 ^ 256"
    and claimed: "0 \<le> NewSupply a" "NewSupply a < 2 ^ 256"
  shows "NewSupply (fetchEntry common_HexToHash
                      (ledger (snd (ApplySupplyAdjustment common_HexToHash m a t)))
                      (historyCount common_HexToHash (ledger m)))
           = NewSupply a"
proof -
  let ?H = common_HexToHash
  have nov': "\<not> snd (FromBig (ValueTokens a))" using nov by (simp add: FromBig_def)
  have neq: "?H ''adjustment_history_count'' \<noteq> ?H ''ultrastable_current_supply''"
    by (simp add: hash_fixed_keys)
  have step: "NewSupply (fetchEntry ?H (ledger (updateAdjustmentHistory ?H m1 a))
                 (historyCount ?H (ledger m))) = NewSupply a"
    if e1: "stateErr (blockchain m1) = None"
      and c1: "historyCount ?H (ledger m1) = historyCount ?H (ledger m)"
    for m1 :: "uint256 UltraStableManager"
    using chain_uah_new_supply [OF e1, of a] claimed
    by (simp add: c1 SetBytes_BytesToHash)
  show ?thesis
  proof (cases "Type a")
    case None_adj
    with kind show ?thesis by simp
  next
    case Expansion
    show ?thesis
      unfolding apply_expansion_eq [OF Expansion state feas nov']
      using step [of "withState m (SetState (SubBalance (ledger m) t (fst (FromBig (ValueTokens a))))
        UltraStableTokenSystemAddress (?H ''ultrastable_current_supply'')
        (BytesToHash_Bytes (currentSupply ?H (ledger m) + Amount a)))"] state neq
      by (simp add: historyCount_supply_write)
  next
    case Contraction
    show ?thesis
      unfolding apply_contraction_eq [OF Contraction state feas nov']
      using step [of "withState m (SetState (AddBalance (ledger m) t (fst (FromBig (ValueTokens a))))
        UltraStableTokenSystemAddress (?H ''ultrastable_current_supply'')
        (BytesToHash_Bytes (currentSupply ?H (ledger m) - Amount a)))"] state neq
      by (simp add: historyCount_supply_write)
  qed
qed

theorem history_records_claimed_supply_witness:
  "Type sample_expansion \<noteq> None_adj \<and>
   stateErr (blockchain chain_manager) = None \<and>
   feasible common_HexToHash chain_manager sample_expansion sample_treasury \<and>
   \<bar>ValueTokens sample_expansion\<bar> < 2 ^ 256 \<and>
   historyCount common_HexToHash (ledger chain_manager) = 0 \<and>
   NewSupply (fetchEntry common_HexToHash
      (ledger (snd (ApplySupplyAdjustment common_HexToHash chain_manager sample_expansion
                      sample_treasury)))
      0) = 1010000000000000000000000"
  using history_records_claimed_supply [where a = sample_expansion and m = chain_manager
      and t = sample_treasury]
  by (simp add: chain_defs sample_expansion_def chain_observer_defs)

text \<open>
  The claim as stated fails: for an \<open>Expansion\<close> by \<open>10,000 * 10^18\<close> whose \<open>NewSupply\<close>
  field says 999, the supply in the ledger after the call is \<open>1,010,000 * 10^18\<close> and
  the record says 999.
\<close>

theorem history_supply_read_back_counterexample:
  "Type sample_misreported = Expansion \<and>
   feasible common_HexToHash chain_manager sample_misreported sample_treasury \<and>
   fst (ApplySupplyAdjustment common_HexToHash chain_manager sample_misreported sample_treasury)
     = None \<and>
   historyCount common_HexToHash (ledger chain_manager) = 0 \<and>
   currentSupply common_HexToHash
     (ledger (snd (ApplySupplyAdjustment common_HexToHash chain_manager sample_misreported
                     sample_treasury)))
     = 1010000000000000000000000 \<and>
   NewSupply (fetchEntry common_HexToHash
      (ledger (snd (ApplySupplyAdjustment common_HexToHash chain_manager sample_misreported
                      sample_treasury)))
      0) = 999"
  by (simp add: chain_defs sample_misreported_def chain_observer_defs apply_defs fetchEntry_def
      Unix_def String_def digit_char_def digits.simps)




text \<open>
  C5. A decision of kind \<open>None\<close>: \<open>ApplySupplyAdjustment\<close> returns \<open>nil\<close> at once; the
  manager, and with it every balance, every storage slot (the supply counter and the
  history journal among them) and both feeds, is what it was before the call.
\<close>

theorem apply_none_is_noop:
  assumes "Type adjustment = None_adj"
  shows "ApplySupplyAdjustment HexToHash m adjustment treasuryAddr = (None, m)"
  using assms by (simp add: ApplySupplyAdjustment_def)

theorem apply_none_is_noop_witness:
  "Type sample_none = None_adj \<and>
   ApplySupplyAdjustment (\<lambda>key. key) sample_manager sample_none sample_treasury
     = (None, sample_manager)"
  using apply_none_is_noop [of sample_none "\<lambda>key. key" sample_manager sample_treasury]
  by (simp add: sample_none_def)

text \<open>
  C6 (amended). A decision whose \<open>ValueTokens\<close> does not fit 256 bits leaves the
  manager, ledger included, unchanged, whatever its kind. When it reaches the
  \<open>Expansion\<close> or the \<open>Contraction\<close> branch (it is not \<open>None\<close>, the ledger is
  accessible, the feasibility check accepts it), the call returns the overflow error,
  raised before any balance or supply mutation.
\<close>

theorem apply_overflow:
  assumes wide: "2 ^ 256 \<le> \<bar>ValueTokens a\<bar>"
  shows "snd (ApplySupplyAdjustment H m a t) = m \<and>
         (Type a \<noteq> None_adj \<and> stateErr (blockchain m) = None \<and> feasible H m a t \<longrightarrow>
            fst (ApplySupplyAdjustment H m a t)
              = Some (errors_New ''value token amount overflow''))"
proof -
  have ov: "snd (FromBig (ValueTokens a))" using wide by (simp add: FromBig_def)
  then have "snd (ApplySupplyAdjustment H m a t) = m"
    by (intro apply_not_applied_eq) simp
  moreover have "fst (ApplySupplyAdjustment H m a t)
                   = Some (errors_New ''value token amount overflow'')"
    if "Type a \<noteq> None_adj" "stateErr (blockchain m) = None" "feasible H m a t"
    using apply_overflow_eq [OF that ov] by simp
  ultimately show ?thesis by simp
qed

theorem apply_overflow_witness:
  "Type sample_wide_contraction = Contraction \<and>
   stateErr (blockchain sample_manager) = None \<and>
   feasible (\<lambda>key. key) sample_manager sample_wide_contraction sample_treasury \<and>
   2 ^ 256 \<le> \<bar>ValueTokens sample_wide_contraction\<bar> \<and>
   ApplySupplyAdjustment (\<lambda>key. key) sample_manager sample_wide_contraction sample_treasury
     = (Some (errors_New ''value token amount overflow''), sample_manager) \<and>
   Type sample_wide_expansion = Expansion \<and>
   stateErr (blockchain permissive_manager) = None \<and>
   feasible (\<lambda>key. key) permissive_manager sample_wide_expansion sample_treasury \<and>
   2 ^ 256 \<le> \<bar>ValueTokens sample_wide_expansion\<bar> \<and>
   ApplySupplyAdjustment (\<lambda>key. key) permissive_manager sample_wide_expansion sample_treasury
     = (Some (errors_New ''value token amount overflow''), permissive_manager)"
  using apply_overflow [where a = sample_wide_contraction and m = sample_manager
      and H = "\<lambda>key. key" and t = sample_treasury]
    apply_overflow [where a = sample_wide_expansion and m = permissive_manager
      and H = "\<lambda>key. key" and t = sample_treasury]
  by (simp add: sample_defs permissive_manager_def sample_wide_contraction_def
      sample_wide_expansion_def observer_defs prod_eq_iff)

text \<open>
  The claim as stated fails for a decision that does not reach a branch: on the sample
  chain, whose feasibility check wants the treasury to cover \<open>ValueTokens\<close>, the
  \<open>Expansion\<close> with \<open>ValueTokens = 2 ^ 256\<close> is rejected as infeasible and the call
  returns \<open>nil\<close>, as it does for a decision of kind \<open>None\<close> with such a value.
\<close>

theorem overflow_error_counterexample:
  "2 ^ 256 \<le> \<bar>ValueTokens sample_wide_expansion\<bar> \<and>
   Type sample_wide_expansion = Expansion \<and>
   ApplySupplyAdjustment (\<lambda>key. key) sample_manager sample_wide_expansion sample_treasury
     = (None, sample_manager) \<and>
   2 ^ 256 \<le> \<bar>ValueTokens sample_wide_none\<bar> \<and>
   ApplySupplyAdjustment (\<lambda>key. key) sample_manager sample_wide_none sample_treasury
     = (None, sample_manager)"
  by (simp add: sample_wide_expansion_def sample_wide_none_def sample_defs observer_defs
      ApplySupplyAdjustment_def State_def Let_def)

text \<open>
  C7 (amended). A decision that is not \<open>None\<close> and that the feasibility check rejects:
  the call returns \<open>nil\<close> and the manager, ledger, journal and feeds included, is
  unchanged. The rejection is logged only; the returned value is the one of an applied
  adjustment.
\<close>

theorem apply_infeasible_skips:
  assumes "Type a \<noteq> None_adj"
    and "stateErr (blockchain m) = None"
    and "\<not> feasible H m a t"
  shows "ApplySupplyAdjustment H m a t = (None, m)"
  using assms by (rule apply_infeasible_eq)

theorem apply_infeasible_skips_witness:
  "Type sample_insolvent \<noteq> None_adj \<and>
   stateErr (blockchain sample_manager) = None \<and>
   \<not> feasible (\<lambda>key. key) sample_manager sample_insolvent sample_treasury \<and>
   ApplySupplyAdjustment (\<lambda>key. key) sample_manager sample_insolvent sample_treasury
     = (None, sample_manager)"
  using apply_infeasible_skips [where a = sample_insolvent and m = sample_manager
      and H = "\<lambda>key. key" and t = sample_treasury]
  by (simp add: sample_defs sample_insolvent_def observer_defs)

text \<open>
  The claim as stated fails: on the sample chain the rejected \<open>sample_insolvent\<close> and
  the applied \<open>sample_expansion\<close> both return \<open>nil\<close>.
\<close>

theorem skipped_looks_like_success_counterexample:
  "Type sample_insolvent = Expansion \<and>
   \<not> feasible (\<lambda>key. key) sample_manager sample_insolvent sample_treasury \<and>
   feasible (\<lambda>key. key) sample_manager sample_expansion sample_treasury \<and>
   fst (ApplySupplyAdjustment (\<lambda>key. key) sample_manager sample_insolvent sample_treasury) = None \<and>
   fst (ApplySupplyAdjustment (\<lambda>key. key) sample_manager sample_expansion sample_treasury) = None \<and>
   adjustFeed (snd (ApplySupplyAdjustment (\<lambda>key. key) sample_manager sample_expansion sample_treasury))
     = [sample_expansion]"
  by (simp add: sample_defs sample_insolvent_def sample_expansion_def observer_defs apply_defs
      digits.simps)

text \<open>
  C8. The genesis set-up of the sample configuration followed by an applied \<open>Expansion\<close>
  and an applied \<open>Contraction\<close>, with the slots of go-ethereum. The history count is 0
  after genesis, 1700000000 after the first append (the time stamp of the decision, in
  seconds) and \<open>990,000 * 10^18\<close> after the second (its \<open>NewSupply\<close>), not 1 and 2. The
  \<open>Amount\<close> of the record with index 0 reads \<open>1,010,000 * 10^18\<close> after the first append,
  where \<open>10,000 * 10^18\<close> was applied, and 1700000060 after the second: the second append
  overwrites the record of the first. Both decisions were applied: they are on the
  adjustment feed.
\<close>

theorem journal_count_after_genesis:
  "historyCount common_HexToHash (ledger genesis_chain_manager) = 0 \<and>
   adjustFeed (applyAll common_HexToHash genesis_chain_manager sample_treasury [sample_expansion])
     = [sample_expansion] \<and>
   historyCount common_HexToHash
     (ledger (applyAll common_HexToHash genesis_chain_manager sample_treasury [sample_expansion]))
     = 1700000000 \<and>
   Amount (fetchEntry common_HexToHash
     (ledger (applyAll common_HexToHash genesis_chain_manager sample_treasury [sample_expansion])) 0)
     = 1010000000000000000000000 \<and>
   adjustFeed (applyAll common_HexToHash genesis_chain_manager sample_treasury
                 [sample_expansion, sample_contraction])
     = [sample_expansion, sample_contraction] \<and>
   historyCount common_HexToHash
     (ledger (applyAll common_HexToHash genesis_chain_manager sample_treasury
                [sample_expansion, sample_contraction]))
     = 990000000000000000000000 \<and>
   Amount (fetchEntry common_HexToHash
     (ledger (applyAll common_HexToHash genesis_chain_manager sample_treasury
                [sample_expansion, sample_contraction])) 0)
     = 1700000060"
proof -
  let ?H = common_HexToHash
  let ?g = genesis_chain_manager
  let ?t = sample_treasury
  let ?m1 = "snd (ApplySupplyAdjustment ?H ?g sample_expansion ?t)"
  let ?m2 = "snd (ApplySupplyAdjustment ?H ?m1 sample_contraction ?t)"
  have e0: "stateErr (blockchain ?g) = None" and p0: "proprietary ?g = sample_proprietary"
    and f0: "adjustFeed ?g = []"
    by (simp_all add: genesis_chain_manager_def)
  have c0: "historyCount ?H (ledger ?g) = 0"
    and s0: "currentSupply ?H (ledger ?g) = 32421"
    and b0: "treasuryBalance (ledger ?g) ?t = 1000000000000000000000000"
    by (simp_all add: chain_historyCount chain_currentSupply genesis_chain_ledger GetState_def
        SetBytes_def treasuryBalance_def GetBalance_def ToBig_def)
  have k1: "Type sample_expansion \<noteq> None_adj" "Type sample_expansion = Expansion"
    and n1: "\<not> snd (FromBig (ValueTokens sample_expansion))"
    by (simp_all add: sample_expansion_def FromBig_def)
  have a1: "feasible ?H ?g sample_expansion ?t"
    by (simp add: feasible_def p0 b0 sample_proprietary_def sample_possible_def
        sample_expansion_def)
  note slots1 = chain_apply_slots [OF k1(1) e0 a1 n1, unfolded c0 String_lengths]
  have c1: "historyCount ?H (ledger ?m1) = 1700000000"
    unfolding chain_historyCount slots1
    by (simp add: sample_expansion_def Unix_def SetBytes_def BytesToHash_Bytes_def)
  have r1: "Amount (fetchEntry ?H (ledger ?m1) 0) = 1010000000000000000000000"
  proof -
    have "Amount (fetchEntry ?H (ledger ?m1) 0)
            = SetBytes (GetState (ledger ?m1) UltraStableTokenSystemAddress 10)"
      by (simp add: chain_fetchEntry_amount String_lengths)
    then show ?thesis
      unfolding slots1
      by (simp add: sample_expansion_def SetBytes_def BytesToHash_Bytes_def)
  qed
  have s1: "currentSupply ?H (ledger ?m1) = 10000000000000000032421"
    using apply_expansion_on_chain [OF k1(2) e0 a1, unfolded s0 b0]
    by (simp add: sample_expansion_def)
  have e1: "stateErr (blockchain ?m1) = None" using e0 by simp
  have p1: "proprietary ?m1 = sample_proprietary"
    using apply_applied_feed(3) [OF k1(1) e0 a1 n1] p0 by simp
  have f1: "adjustFeed ?m1 = [sample_expansion]"
    using apply_applied_feed(2) [OF k1(1) e0 a1 n1] f0 by simp
  have k2: "Type sample_contraction \<noteq> None_adj"
    and n2: "\<not> snd (FromBig (ValueTokens sample_contraction))"
    by (simp_all add: sample_contraction_def FromBig_def)
  have a2: "feasible ?H ?m1 sample_contraction ?t"
    by (simp add: feasible_def p1 chain_minimumSupply s1 sample_proprietary_def
        sample_possible_def sample_contraction_def)
  note slots2 = chain_apply_slots [OF k2 e1 a2 n2, unfolded c1 String_lengths]
  have c2: "historyCount ?H (ledger ?m2) = 990000000000000000000000"
    unfolding chain_historyCount slots2
    by (simp add: sample_contraction_def SetBytes_def BytesToHash_Bytes_def)
  have r2: "Amount (fetchEntry ?H (ledger ?m2) 0) = 1700000060"
  proof -
    have "Amount (fetchEntry ?H (ledger ?m2) 0)
            = SetBytes (GetState (ledger ?m2) UltraStableTokenSystemAddress 10)"
      by (simp add: chain_fetchEntry_amount String_lengths)
    then show ?thesis
      unfolding slots2
      by (simp add: sample_contraction_def Unix_def SetBytes_def BytesToHash_Bytes_def)
  qed
  have f2: "adjustFeed ?m2 = [sample_expansion, sample_contraction]"
    using apply_applied_feed(2) [OF k2 e1 a2 n2] f1 by simp
  show ?thesis
    unfolding applyAll.simps using c0 c1 r1 f1 c2 r2 f2 by simp
qed

text \<open>
  C10. In \<open>ProcessUpdate\<close> on an accessible ledger, the decision sent on the update feed
  is \<open>CalculateSupplyAdjustment\<close> applied to the stored supply, the reference price and
  the volatility, where the reference price is \<open>10^18\<close> when the stored
  \<open>value_token_price\<close> word is zero, and the stored value itself when it is not. This
  holds for every \<open>CalculateSupplyAdjustment\<close>.
\<close>

theorem process_update_reference_price:
  assumes "stateErr (blockchain m) = None"
  shows "(GetState (ledger m) O2ULTokenSystemAddress (H ''value_token_price'') = 0 \<longrightarrow>
            updateFeed (ProcessUpdate H now now' m) = updateFeed m @
              [CalculateSupplyAdjustment (proprietary m) (currentSupply H (ledger m))
                 (10 ^ 18)
                 (uint8 (Uint64 (SetBytes (GetState (ledger m) UltraStableTokenSystemAddress
                    (H ''market_volatility'')))))]) \<and>
         (GetState (ledger m) O2ULTokenSystemAddress (H ''value_token_price'') \<noteq> 0 \<longrightarrow>
            updateFeed (ProcessUpdate H now now' m) = updateFeed m @
              [CalculateSupplyAdjustment (proprietary m) (currentSupply H (ledger m))
                 (SetBytes (GetState (ledger m) O2ULTokenSystemAddress (H ''value_token_price'')))
                 (uint8 (Uint64 (SetBytes (GetState (ledger m) UltraStableTokenSystemAddress
                    (H ''market_volatility'')))))])"
  unfolding ProcessUpdate_eq [OF assms]
  by (simp add: withState_def SetBytes_def uint_0_iff)

theorem process_update_reference_price_witness:
  "stateErr (blockchain sample_manager) = None \<and>
   GetState (ledger sample_manager) O2ULTokenSystemAddress ''value_token_price'' = 0 \<and>
   map ValueTokens (updateFeed (ProcessUpdate (\<lambda>key. key) 1700000100000000000
       1700000100000000250 sample_manager))
     = [1000000000000000000] \<and>
   stateErr (blockchain priced_manager) = None \<and>
   GetState (ledger priced_manager) O2ULTokenSystemAddress ''value_token_price''
     = 2000000000000000000 \<and>
   map ValueTokens (updateFeed (ProcessUpdate (\<lambda>key. key) 1700000100000000000
       1700000100000000250 priced_manager))
     = [2000000000000000000]"
  using process_update_reference_price [where m = sample_manager and H = "\<lambda>key. key"
      and now = 1700000100000000000 and now' = 1700000100000000250]
    process_update_reference_price [where m = priced_manager and H = "\<lambda>key. key"
      and now = 1700000100000000000 and now' = 1700000100000000250]
  by (simp add: sample_defs priced_manager_def observer_defs withState_def
      O2ULTokenSystemAddress_def)

text \<open>
  C9. On an accessible ledger whose journal holds \<open>count\<close> records,
  \<open>GetAdjustmentHistory\<close> with a non-negative \<open>maxEntries\<close> returns the records with
  indices from \<open>max 0 (count - maxEntries)\<close> up to \<open>count - 1\<close>, the oldest first; they
  are \<open>min maxEntries count\<close> many, and none when \<open>count\<close> is 0. \<open>maxEntries\<close> is a
  Go \<open>int\<close> and the count is read with \<open>Int64()\<close>, so both are below \<open>2 ^ 63\<close>.
\<close>

theorem history_query_window:
  assumes state: "stateErr (blockchain m) = None"
    and n: "0 \<le> maxEntries" "maxEntries < 2 ^ 63"
    and c: "historyCount H (ledger m) < 2 ^ 63"
  shows "GetAdjustmentHistory H m maxEntries =
           map (fetchEntry H (ledger m))
             [max 0 (historyCount H (ledger m) - maxEntries)..historyCount H (ledger m) - 1] \<and>
         int (length (GetAdjustmentHistory H m maxEntries))
           = min maxEntries (historyCount H (ledger m)) \<and>
         (historyCount H (ledger m) = 0 \<longrightarrow> GetAdjustmentHistory H m maxEntries = [])"
proof -
  have c0: "0 \<le> historyCount H (ledger m)" by (rule historyCount_nonneg)
  note eq = GetAdjustmentHistory_eq [OF state n c]
  have "int (length (GetAdjustmentHistory H m maxEntries)) = min maxEntries (historyCount H (ledger m))"
    unfolding eq using c0 n by (simp add: max_def min_def)
  moreover have "historyCount H (ledger m) = 0 \<Longrightarrow> GetAdjustmentHistory H m maxEntries = []"
    unfolding eq using n by simp
  ultimately show ?thesis using eq by simp
qed

theorem history_query_window_witness:
  "stateErr (blockchain journal_manager) = None \<and>
   historyCount (\<lambda>key. key) (ledger journal_manager) = 2 \<and>
   GetAdjustmentHistory (\<lambda>key. key) journal_manager 1 = [stored sample_contraction] \<and>
   GetAdjustmentHistory (\<lambda>key. key) journal_manager 5
     = [stored sample_expansion, stored sample_contraction] \<and>
   GetAdjustmentHistory (\<lambda>key. key) journal_manager 0 = [] \<and>
   stateErr (blockchain sample_manager) = None \<and>
   historyCount (\<lambda>key. key) (ledger sample_manager) = 0 \<and>
   GetAdjustmentHistory (\<lambda>key. key) sample_manager 5 = []"
proof -
  have u: "[1..1::int] = [1]" "[0..1::int] = [0, 1]" "[2..1::int] = []"
    by (simp_all add: upto_rec1)
  have e: "stateErr (blockchain sample_manager) = None" by (simp add: sample_manager_def)
  from history_query_window [where m = journal_manager and H = "\<lambda>key. key" and maxEntries = 1]
    history_query_window [where m = journal_manager and H = "\<lambda>key. key" and maxEntries = 5]
    history_query_window [where m = journal_manager and H = "\<lambda>key. key" and maxEntries = 0]
    history_query_window [where m = sample_manager and H = "\<lambda>key. key" and maxEntries = 5]
  show ?thesis
    by (simp add: journal_manager_facts sample_count e u)
qed

end
